theory Spec2Isabelle
  imports Main "HOL-Library.Word"
begin

unbundle bit_operations_syntax

section \<open>The WK2132 I2C-to-UART bridge driver\<close>

text \<open>
  A shallow embedding of \<^verbatim>\<open>esphome/components/wk2132_i2c/wk2132_i2c.{h,cpp}\<close>: the ring
  buffer, the register proxy, the setup of the component and of its channels, and the
  receive path (\<^verbatim>\<open>rx_in_fifo_\<close>, \<^verbatim>\<open>xfer_fifo_to_buffer_\<close>, \<^verbatim>\<open>available\<close>, \<^verbatim>\<open>peek_byte\<close>,
  \<^verbatim>\<open>read_array\<close>); and of the setup path of the older
  \<^verbatim>\<open>esphome/components/wk2132/wk2132.cpp\<close>. Objects are records, a method takes the objects
  it touches and returns them updated, and the I2C bus is an explicit environment that
  answers every transaction. The transmit path, \<^verbatim>\<open>flush\<close> and \<^verbatim>\<open>loop\<close> (which wait on the
  wall clock) and the log output are left out.
\<close>

type_synonym u8 = "8 word"
type_synonym u16 = "16 word"
type_synonym u32 = "32 word"

subsection \<open>\<^verbatim>\<open>size_t\<close> arithmetic\<close>

text \<open>
  \<^verbatim>\<open>size_t\<close> is an unsigned 32-bit integer on the targets of the driver. Values of that
  type are natural numbers here and the wrap-around of \<^verbatim>\<open>++\<close>, \<^verbatim>\<open>--\<close> and \<^verbatim>\<open>-\<close> is
  written out.
\<close>

definition SIZE_T_MOD :: nat where
  "SIZE_T_MOD = 2 ^ 32"

definition size_t_inc :: "nat \<Rightarrow> nat" where
  "size_t_inc n = (n + 1) mod SIZE_T_MOD"

definition size_t_dec :: "nat \<Rightarrow> nat" where
  "size_t_dec n = (n + SIZE_T_MOD - 1) mod SIZE_T_MOD"

definition size_t_sub :: "nat \<Rightarrow> nat \<Rightarrow> nat" where
  "size_t_sub a b = (a + SIZE_T_MOD - b) mod SIZE_T_MOD"

text \<open>The conversion of a \<^verbatim>\<open>size_t\<close> to \<^verbatim>\<open>int\<close> (32-bit two's complement).\<close>

definition size_t_to_int :: "nat \<Rightarrow> int" where
  "size_t_to_int n = (if n < 2 ^ 31 then int n else int n - 2 ^ 32)"

subsection \<open>\<^verbatim>\<open>RingBuffer<uint8_t, SIZE>\<close>\<close>

text \<open>
  An Isabelle name cannot end in an underscore: the C++ member or method \<^verbatim>\<open>x_\<close> is
  written \<open>x_m\<close> throughout.

  The template parameter \<^verbatim>\<open>SIZE\<close> is the first argument of every operation. \<^verbatim>\<open>rb_\<close> is the
  \<^verbatim>\<open>std::array\<close>; \<^verbatim>\<open>head_\<close> and \<^verbatim>\<open>tail_\<close> are only ever assigned 0 or a remainder modulo
  \<^verbatim>\<open>SIZE\<close>, so they are natural numbers.
\<close>

record RingBuffer =
  rb_m :: "u8 list"
  tail_m :: nat
  head_m :: nat
  count_m :: nat

definition is_empty :: "RingBuffer \<Rightarrow> bool" where
  "is_empty rb = (count_m rb = 0)"

definition is_full :: "nat \<Rightarrow> RingBuffer \<Rightarrow> bool" where
  "is_full SIZE rb = (count_m rb = SIZE)"

definition push :: "nat \<Rightarrow> u8 \<Rightarrow> RingBuffer \<Rightarrow> bool \<times> RingBuffer" where
  "push SIZE item rb =
     (if is_full SIZE rb then (False, rb)
      else (True, rb\<lparr>rb_m := (rb_m rb)[head_m rb := item],
                      head_m := (head_m rb + 1) mod SIZE,
                      count_m := size_t_inc (count_m rb)\<rparr>))"

text \<open>
  \<^verbatim>\<open>pop\<close> and \<^verbatim>\<open>peek\<close> take the item by reference: the second argument is its value before
  the call, the second component of the result its value after.
\<close>

definition pop :: "nat \<Rightarrow> u8 \<Rightarrow> RingBuffer \<Rightarrow> bool \<times> u8 \<times> RingBuffer" where
  "pop SIZE item rb =
     (if is_empty rb then (False, item, rb)
      else (True, rb_m rb ! tail_m rb,
            rb\<lparr>tail_m := (tail_m rb + 1) mod SIZE, count_m := size_t_dec (count_m rb)\<rparr>))"

definition peek :: "u8 \<Rightarrow> RingBuffer \<Rightarrow> bool \<times> u8 \<times> RingBuffer" where
  "peek item rb =
     (if is_empty rb then (False, item, rb) else (True, rb_m rb ! tail_m rb, rb))"

definition count :: "RingBuffer \<Rightarrow> nat" where
  "count rb = count_m rb"

definition free :: "nat \<Rightarrow> RingBuffer \<Rightarrow> nat" where
  "free SIZE rb = size_t_sub SIZE (count_m rb)"

definition clear :: "RingBuffer \<Rightarrow> RingBuffer" where
  "clear rb = rb\<lparr>head_m := 0, tail_m := 0, count_m := 0\<rparr>"

text \<open>The buffer as constructed: the array zero-filled, the indices and the count 0.\<close>

definition RingBuffer_init :: "nat \<Rightarrow> RingBuffer" where
  "RingBuffer_init SIZE = \<lparr>rb_m = replicate SIZE 0, tail_m = 0, head_m = 0, count_m = 0\<rparr>"

text \<open>A call of one of the public operations, and a sequence of calls.\<close>

datatype rb_call = Push u8 | Pop | Peek | Clear

fun rb_apply :: "nat \<Rightarrow> rb_call \<Rightarrow> RingBuffer \<Rightarrow> RingBuffer" where
  "rb_apply SIZE (Push x) rb = snd (push SIZE x rb)"
| "rb_apply SIZE Pop rb = snd (snd (pop SIZE 0 rb))"
| "rb_apply SIZE Peek rb = snd (snd (peek 0 rb))"
| "rb_apply SIZE Clear rb = clear rb"

fun rb_run :: "nat \<Rightarrow> rb_call list \<Rightarrow> RingBuffer \<Rightarrow> RingBuffer" where
  "rb_run SIZE [] rb = rb"
| "rb_run SIZE (c # cs) rb = rb_run SIZE cs (rb_apply SIZE c rb)"

subsection \<open>The I2C bus\<close>

text \<open>
  Modelled from the spec: the error code \<^verbatim>\<open>i2c::ErrorCode\<close> of the bus transport, declared
  outside the sources. The spec describes a binary success/failure result carrying the
  transport's code; the driver only ever compares it with \<^verbatim>\<open>ERROR_OK\<close>.
\<close>

datatype ErrorCode = ERROR_OK | ERROR_CODE nat

text \<open>
  Modelled from the spec: the bus transport \<^verbatim>\<open>i2c::I2CDevice\<close>, an external collaborator
  that performs one addressed read or write of \<open>n\<close> bytes and reports success or failure.
  It is an environment here: every transaction is appended to a journal (with the bus
  address, the register number for a register access, and the bytes written or the number of
  bytes asked for), and the answer to the \<open>n\<close>-th transaction is \<open>respond n\<close>, any function
  at all. An answer is the error code and the content of the destination buffer after the
  call (for a failed read: whatever the transport left there).
\<close>

datatype transaction =
    READ_REGISTER u8 u8 nat
  | WRITE_REGISTER u8 u8 "u8 list"
  | READ u8 nat
  | WRITE u8 "u8 list"

fun bus_address :: "transaction \<Rightarrow> u8" where
  "bus_address (READ_REGISTER a r n) = a"
| "bus_address (WRITE_REGISTER a r bs) = a"
| "bus_address (READ a n) = a"
| "bus_address (WRITE a bs) = a"

record reply =
  error :: ErrorCode
  bytes :: "nat \<Rightarrow> u8"

record I2CBus =
  respond :: "nat \<Rightarrow> reply"
  journal :: "transaction list"

definition transact :: "transaction \<Rightarrow> I2CBus \<Rightarrow> reply \<times> I2CBus" where
  "transact t b = (respond b (length (journal b)), b\<lparr>journal := journal b @ [t]\<rparr>)"

subsection \<open>The component and its channels\<close>

text \<open>
  \<^verbatim>\<open>WK2132Component\<close> with what it inherits: the bus and \<^verbatim>\<open>address_\<close> of
  \<^verbatim>\<open>i2c::I2CDevice\<close>, the warning status and the failed state of \<^verbatim>\<open>Component\<close>
  (\<^verbatim>\<open>status_set_warning\<close>, \<^verbatim>\<open>status_clear_warning\<close>, \<^verbatim>\<open>is_failed\<close>; the failed state is
  set by \<^verbatim>\<open>mark_failed\<close> only, which the driver never calls). \<^verbatim>\<open>data_\<close> is a member of
  the component of namespace \<^verbatim>\<open>wk2132\<close> only. The children are kept beside the component,
  as a list in the order of \<^verbatim>\<open>children_\<close>.
\<close>

record WK2132Component =
  bus :: I2CBus
  address_m :: u8
  status_warning :: bool
  is_failed :: bool
  crystal_m :: u32
  base_address_m :: u8
  test_mode_m :: int
  page1_m :: bool
  data_m :: u8

text \<open>
  Modelled from the spec: the line configuration that \<^verbatim>\<open>WK2132Channel\<close> inherits from
  \<^verbatim>\<open>uart::UARTComponent\<close>, declared outside the sources: the baud rate, the stop bits
  (1 or 2), the data bits and the parity (none, even or odd).
\<close>

datatype UARTParityOptions =
  UART_CONFIG_PARITY_NONE | UART_CONFIG_PARITY_EVEN | UART_CONFIG_PARITY_ODD

record WK2132Channel =
  receive_buffer_m :: RingBuffer
  channel_m :: u8
  baud_rate_m :: u32
  stop_bits_m :: u8
  data_bits_m :: u8
  parity_m :: UARTParityOptions

text \<open>
  Modelled from the spec: the methods of \<^verbatim>\<open>i2c::I2CDevice\<close> the driver calls
  (\<^verbatim>\<open>read_register\<close>, \<^verbatim>\<open>write_register\<close> and the raw \<^verbatim>\<open>read\<close>), each one exchange at the
  current \<^verbatim>\<open>address_\<close>.
\<close>

definition read_register :: "u8 \<Rightarrow> nat \<Rightarrow> WK2132Component \<Rightarrow> reply \<times> WK2132Component" where
  "read_register a_register len c =
     (let (rep, b) = transact (READ_REGISTER (address_m c) a_register len) (bus c)
      in (rep, c\<lparr>bus := b\<rparr>))"

definition write_register :: "u8 \<Rightarrow> u8 list \<Rightarrow> WK2132Component \<Rightarrow> ErrorCode \<times> WK2132Component" where
  "write_register a_register data c =
     (let (rep, b) = transact (WRITE_REGISTER (address_m c) a_register data) (bus c)
      in (error rep, c\<lparr>bus := b\<rparr>))"

definition read_raw :: "nat \<Rightarrow> WK2132Component \<Rightarrow> reply \<times> WK2132Component" where
  "read_raw len c =
     (let (rep, b) = transact (READ (address_m c) len) (bus c)
      in (rep, c\<lparr>bus := b\<rparr>))"

subsection \<open>Constants\<close>

definition FIFO_SIZE :: nat where "FIFO_SIZE = 256"

definition REG_WK2132_GENA :: u8 where "REG_WK2132_GENA = 0x00"
definition GENA_C2EN :: u8 where "GENA_C2EN = push_bit 1 1"
definition GENA_C1EN :: u8 where "GENA_C1EN = push_bit 0 1"
definition REG_WK2132_GRST :: u8 where "REG_WK2132_GRST = 0x01"
definition GRST_C2RST :: u8 where "GRST_C2RST = push_bit 1 1"
definition GRST_C1RST :: u8 where "GRST_C1RST = push_bit 0 1"
definition REG_WK2132_SPAGE :: u8 where "REG_WK2132_SPAGE = 0x03"
definition REG_WK2132_SCR :: u8 where "REG_WK2132_SCR = 0x04"
definition SCR_TXEN :: u8 where "SCR_TXEN = push_bit 1 1"
definition SCR_RXEN :: u8 where "SCR_RXEN = push_bit 0 1"
definition REG_WK2132_LCR :: u8 where "REG_WK2132_LCR = 0x05"
definition LCR_PAEN :: u8 where "LCR_PAEN = push_bit 3 1"
definition LCR_PAR_ODD :: u8 where "LCR_PAR_ODD = push_bit 1 1"
definition LCR_PAR_EVEN :: u8 where "LCR_PAR_EVEN = push_bit 1 2"
definition LCR_STPL :: u8 where "LCR_STPL = push_bit 0 1"
definition REG_WK2132_FCR :: u8 where "REG_WK2132_FCR = 0x06"
definition FCR_TFEN :: u8 where "FCR_TFEN = push_bit 3 1"
definition FCR_RFEN :: u8 where "FCR_RFEN = push_bit 2 1"
definition FCR_TFRST :: u8 where "FCR_TFRST = push_bit 3 1"
definition REG_WK2132_RFCNT :: u8 where "REG_WK2132_RFCNT = 0x0A"
definition REG_WK2132_FSR :: u8 where "REG_WK2132_FSR = 0x0B"
definition FSR_RFEMPTY :: u8 where "FSR_RFEMPTY = push_bit 3 1"
definition REG_WK2132_BRH :: u8 where "REG_WK2132_BRH = 0x04"
definition REG_WK2132_BRL :: u8 where "REG_WK2132_BRL = 0x05"
definition REG_WK2132_BRD :: u8 where "REG_WK2132_BRD = 0x06"

subsection \<open>\<^verbatim>\<open>WK2132Register\<close>, the register proxy\<close>

definition i2c_address :: "u8 \<Rightarrow> u8 \<Rightarrow> u8 \<Rightarrow> u8" where
  "i2c_address base_address channel fifo = base_address OR push_bit 1 channel OR fifo"

text \<open>
  The proxy holds the register number and the channel (\<^verbatim>\<open>register_\<close> and \<^verbatim>\<open>channel_\<close>,
  here \<open>register_m\<close> and \<open>reg_channel_m\<close>); its \<^verbatim>\<open>parent_\<close> is the component given to
  each method, \<^verbatim>\<open>get\<close> and \<^verbatim>\<open>set\<close> are \<open>reg_get\<close> and \<open>reg_set\<close>. Log output is not
  modelled; the arguments of the log calls in \<^verbatim>\<open>get\<close> and \<^verbatim>\<open>set\<close> touch neither the bus
  nor the state.
\<close>

datatype WK2132Register = WK2132Register (register_m: u8) (reg_channel_m: u8)

definition component_reg :: "u8 \<Rightarrow> WK2132Register" where
  "component_reg a_register = WK2132Register a_register 0"

definition channel_reg :: "WK2132Channel \<Rightarrow> u8 \<Rightarrow> WK2132Register" where
  "channel_reg ch a_register = WK2132Register a_register (channel_m ch)"

definition reg_get :: "WK2132Register \<Rightarrow> WK2132Component \<Rightarrow> u8 \<times> WK2132Component" where
  "reg_get r c =
     (let c1 = c\<lparr>address_m := i2c_address (base_address_m c) (reg_channel_m r) 0\<rparr>;
          (rep, c2) = read_register (register_m r) 1 c1;
          value = bytes rep 0
      in if error rep = ERROR_OK then (value, c2\<lparr>status_warning := False\<rparr>)
         else (value, c2\<lparr>status_warning := True\<rparr>))"

definition reg_set :: "WK2132Register \<Rightarrow> u8 \<Rightarrow> WK2132Component \<Rightarrow> WK2132Component" where
  "reg_set r value c =
     (let c1 = c\<lparr>address_m := i2c_address (base_address_m c) (reg_channel_m r) 0\<rparr>;
          (err, c2) = write_register (register_m r) [value] c1
      in if err = ERROR_OK then c2\<lparr>status_warning := False\<rparr>
         else c2\<lparr>status_warning := True\<rparr>)"

text \<open>\<^verbatim>\<open>operator=\<close>, \<^verbatim>\<open>operator&=\<close> and \<^verbatim>\<open>operator|=\<close>.\<close>

definition reg_assign :: "WK2132Register \<Rightarrow> u8 \<Rightarrow> WK2132Component \<Rightarrow> WK2132Component" where
  "reg_assign r value c = reg_set r value c"

definition reg_and_assign :: "WK2132Register \<Rightarrow> u8 \<Rightarrow> WK2132Component \<Rightarrow> WK2132Component" where
  "reg_and_assign r value c =
     (let (got, c1) = reg_get r c;
          value1 = value AND got
      in reg_set r value1 c1)"

definition reg_or_assign :: "WK2132Register \<Rightarrow> u8 \<Rightarrow> WK2132Component \<Rightarrow> WK2132Component" where
  "reg_or_assign r value c =
     (let (got, c1) = reg_get r c;
          value1 = value OR got
      in reg_set r value1 c1)"

subsection \<open>\<^verbatim>\<open>WK2132Channel\<close>: setup\<close>

definition reset_fifo_m :: "WK2132Component \<Rightarrow> WK2132Channel \<Rightarrow> WK2132Component" where
  "reset_fifo_m c ch =
     reg_assign (channel_reg ch REG_WK2132_FCR) (FCR_TFEN OR FCR_RFEN OR FCR_TFRST OR FCR_TFRST) c"

text \<open>
  \<^verbatim>\<open>set_line_param_\<close> ends with an \<^verbatim>\<open>ESP_LOGV\<close> whose last argument is \<^verbatim>\<open>lcr.get()\<close>, a
  read of the line configuration register. \<^verbatim>\<open>ESP_LOGV\<close> and its arguments are compiled in
  only when the log level of the build is verbose or higher: \<open>verbose\<close> says whether it
  is. No other log call of the modelled methods touches the bus.
\<close>

definition set_line_param_m ::
  "bool \<Rightarrow> WK2132Component \<Rightarrow> WK2132Channel \<Rightarrow> WK2132Component \<times> WK2132Channel" where
  "set_line_param_m verbose c ch =
     (let ch1 = ch\<lparr>data_bits_m := 8\<rparr>;
          lcr = channel_reg ch1 REG_WK2132_LCR;
          c1 = reg_and_assign lcr 0xF0 c;
          c2 = (if stop_bits_m ch1 = 2 then reg_or_assign lcr LCR_STPL c1 else c1);
          c3 = (case parity_m ch1 of
                  UART_CONFIG_PARITY_ODD \<Rightarrow> reg_or_assign lcr (LCR_PAEN OR LCR_PAR_ODD) c2
                | UART_CONFIG_PARITY_EVEN \<Rightarrow> reg_or_assign lcr (LCR_PAEN OR LCR_PAR_EVEN) c2
                | UART_CONFIG_PARITY_NONE \<Rightarrow> c2);
          c4 = (if verbose then snd (reg_get lcr c3) else c3)
      in (c4, ch1))"

text \<open>
  The baud-rate arithmetic of \<^verbatim>\<open>set_baudrate_\<close>, the same in both namespaces:
  \<^verbatim>\<open>crystal_\<close> and \<^verbatim>\<open>baud_rate_\<close> are \<^verbatim>\<open>uint32_t\<close>, the results are stored in
  \<^verbatim>\<open>uint16_t\<close>. The caller has checked that the divisor is not zero.
\<close>

definition baud_divisor :: "u32 \<Rightarrow> u32" where
  "baud_divisor baud_rate = baud_rate * 16"

definition val_int :: "u32 \<Rightarrow> u32 \<Rightarrow> u16" where
  "val_int crystal baud_rate = ucast (crystal div baud_divisor baud_rate - 1)"

definition val_dec :: "u32 \<Rightarrow> u32 \<Rightarrow> u16" where
  "val_dec crystal baud_rate =
     ucast ((crystal mod baud_divisor baud_rate) div baud_divisor baud_rate)"

text \<open>The loop \<^verbatim>\<open>while (val_dec > 0x0A) val_dec /= 0x0A;\<close>\<close>

function reduce_val_dec :: "u16 \<Rightarrow> u16" where
  "reduce_val_dec v = (if v > 0x0A then reduce_val_dec (v div 0x0A) else v)"
  by pat_completeness auto
termination
proof (relation "measure unat")
  show "wf (measure unat)" by simp
next
  fix v :: u16
  assume "0x0A < v"
  then have "0 < unat v"
    by (simp add: word_less_nat_alt)
  then have "unat v div 10 < unat v"
    by simp
  then show "(v div 0x0A, v) \<in> measure unat"
    by (simp add: unat_div)
qed

definition baud_high :: "u16 \<Rightarrow> u8" where
  "baud_high v = ucast (drop_bit 8 v)"

definition baud_low :: "u16 \<Rightarrow> u8" where
  "baud_low v = ucast (v AND 0xFF)"

definition baud_dec :: "u16 \<Rightarrow> u8" where
  "baud_dec v = ucast (reduce_val_dec v)"

text \<open>
  The page switch as \<^verbatim>\<open>set_baudrate_\<close> of namespace \<^verbatim>\<open>wk2132_i2c\<close> performs it, twice
  (``switch to page 1'', ``switch back to page 0''): the flag \<^verbatim>\<open>page1_\<close> is assigned, then
  the page-select register is written through the channel's proxy.
\<close>

definition switch_page :: "bool \<Rightarrow> WK2132Channel \<Rightarrow> WK2132Component \<Rightarrow> WK2132Component" where
  "switch_page page1 ch c =
     reg_assign (channel_reg ch REG_WK2132_SPAGE) (if page1 then 1 else 0) (c\<lparr>page1_m := page1\<rparr>)"

text \<open>
  A division by zero stops the program: \<^verbatim>\<open>set_baudrate_\<close> and everything that calls it
  return \<open>None\<close> then.
\<close>

definition set_baudrate_m :: "WK2132Component \<Rightarrow> WK2132Channel \<Rightarrow> WK2132Component option" where
  "set_baudrate_m c ch =
     (if baud_divisor (baud_rate_m ch) = 0 then None
      else
        let vi = val_int (crystal_m c) (baud_rate_m ch);
            vd = val_dec (crystal_m c) (baud_rate_m ch);
            c1 = switch_page True ch c;
            c2 = reg_assign (channel_reg ch REG_WK2132_BRH) (baud_high vi) c1;
            c3 = reg_assign (channel_reg ch REG_WK2132_BRL) (baud_low vi) c2;
            c4 = reg_assign (channel_reg ch REG_WK2132_BRD) (baud_dec vd) c3
        in Some (switch_page False ch c4))"

definition setup_channel_m ::
  "bool \<Rightarrow> WK2132Component \<Rightarrow> WK2132Channel \<Rightarrow> (WK2132Component \<times> WK2132Channel) option" where
  "setup_channel_m verbose c ch =
     (let c1 = reg_assign (channel_reg ch REG_WK2132_SCR) (SCR_RXEN OR SCR_TXEN) c;
          c2 = reset_fifo_m c1 ch;
          ch1 = ch\<lparr>receive_buffer_m := clear (receive_buffer_m ch)\<rparr>;
          (c3, ch2) = set_line_param_m verbose c2 ch1
      in case set_baudrate_m c3 ch2 of
           None \<Rightarrow> None
         | Some c4 \<Rightarrow> Some (c4, ch2))"

subsection \<open>\<^verbatim>\<open>WK2132Component::setup\<close>\<close>

text \<open>The loop over \<^verbatim>\<open>children_\<close>, in the order of the vector.\<close>

fun setup_children ::
  "bool \<Rightarrow> WK2132Component \<Rightarrow> WK2132Channel list \<Rightarrow>
   (WK2132Component \<times> WK2132Channel list) option" where
  "setup_children verbose c [] = Some (c, [])"
| "setup_children verbose c (child # rest) =
     (case setup_channel_m verbose c child of
        None \<Rightarrow> None
      | Some (c1, child1) \<Rightarrow>
          (case setup_children verbose c1 rest of
             None \<Rightarrow> None
           | Some (c2, rest1) \<Rightarrow> Some (c2, child1 # rest1)))"

definition component_setup ::
  "bool \<Rightarrow> WK2132Component \<Rightarrow> WK2132Channel list \<Rightarrow>
   (WK2132Component \<times> WK2132Channel list) option" where
  "component_setup verbose c children =
     (let c0 = c\<lparr>base_address_m := address_m c\<rparr>;
          c1 = reg_assign (component_reg REG_WK2132_GENA) (GENA_C1EN OR GENA_C2EN) c0;
          c2 = reg_assign (component_reg REG_WK2132_GRST) (GRST_C1RST OR GRST_C2RST) c1;
          c3 = reg_assign (component_reg REG_WK2132_SPAGE) 0 c2;
          c4 = c3\<lparr>page1_m := False\<rparr>
      in setup_children verbose c4 children)"

subsection \<open>\<^verbatim>\<open>WK2132Channel\<close>: the receive path\<close>

definition rx_in_fifo_m :: "WK2132Component \<Rightarrow> WK2132Channel \<Rightarrow> nat \<times> WK2132Component" where
  "rx_in_fifo_m c ch =
     (let (rfcnt, c1) = reg_get (channel_reg ch REG_WK2132_RFCNT) c;
          available = unat rfcnt
      in if available = 0 then
           (let (fsr, c2) = reg_get (channel_reg ch REG_WK2132_FSR) c1
            in if fsr AND FSR_RFEMPTY \<noteq> 0 then (FIFO_SIZE, c2) else (available, c2))
         else (available, c1))"

text \<open>The loop \<^verbatim>\<open>for (size_t i = 0; i < to_transfer; i++) receive_buffer_.push(data[i]);\<close>\<close>

function push_loop :: "nat \<Rightarrow> (nat \<Rightarrow> u8) \<Rightarrow> nat \<Rightarrow> nat \<Rightarrow> RingBuffer \<Rightarrow> RingBuffer" where
  "push_loop SIZE data i to_transfer rb =
     (if i < to_transfer
      then push_loop SIZE data (i + 1) to_transfer (snd (push SIZE (data i) rb))
      else rb)"
  by pat_completeness auto
termination
  by (relation "measure (\<lambda>(SIZE, data, i, to_transfer, rb). to_transfer - i)") auto

text \<open>
  \<^verbatim>\<open>XFER_MAX_SIZE\<close> is \<^verbatim>\<open>I2C_BUFFER_LENGTH\<close> (or 255), a macro of the platform: it is the
  first argument of the methods that use it, and it is also \<^verbatim>\<open>RING_BUFFER_SIZE\<close>, the
  size of \<^verbatim>\<open>receive_buffer_\<close>. The array \<^verbatim>\<open>data\<close> is not initialised: after the read it
  holds what the bus answered.
\<close>

definition xfer_fifo_to_buffer_m ::
  "nat \<Rightarrow> WK2132Component \<Rightarrow> WK2132Channel \<Rightarrow> nat \<times> WK2132Component \<times> WK2132Channel" where
  "xfer_fifo_to_buffer_m XFER_MAX_SIZE c ch =
     (let (to_transfer0, c1) = rx_in_fifo_m c ch;
          free0 = free XFER_MAX_SIZE (receive_buffer_m ch);
          to_transfer1 = (if to_transfer0 > XFER_MAX_SIZE then XFER_MAX_SIZE else to_transfer0);
          to_transfer = (if to_transfer1 > free0 then free0 else to_transfer1)
      in if to_transfer \<noteq> 0 then
           (let c2 = c1\<lparr>address_m := i2c_address (base_address_m c1) (channel_m ch) 1\<rparr>;
                (rep, c3) = read_raw to_transfer c2;
                data = bytes rep
            in (to_transfer, c3,
                ch\<lparr>receive_buffer_m :=
                     push_loop XFER_MAX_SIZE data 0 to_transfer (receive_buffer_m ch)\<rparr>))
         else (to_transfer, c1, ch))"

definition peek_byte ::
  "nat \<Rightarrow> u8 \<Rightarrow> WK2132Component \<Rightarrow> WK2132Channel \<Rightarrow> bool \<times> u8 \<times> WK2132Component \<times> WK2132Channel" where
  "peek_byte XFER_MAX_SIZE buffer c ch =
     (let available = count (receive_buffer_m ch);
          (c1, ch1) = (if available = 0
                       then snd (xfer_fifo_to_buffer_m XFER_MAX_SIZE c ch) else (c, ch));
          (ok, item, rb1) = peek buffer (receive_buffer_m ch1)
      in (ok, item, c1, ch1\<lparr>receive_buffer_m := rb1\<rparr>))"

definition available ::
  "nat \<Rightarrow> WK2132Component \<Rightarrow> WK2132Channel \<Rightarrow> int \<times> WK2132Component \<times> WK2132Channel" where
  "available XFER_MAX_SIZE c ch =
     (let available0 = count (receive_buffer_m ch)
      in if available0 = 0 then
           (let (available1, c1, ch1) = xfer_fifo_to_buffer_m XFER_MAX_SIZE c ch
            in (size_t_to_int available1, c1, ch1))
         else (size_t_to_int available0, c, ch))"

text \<open>
  \<^verbatim>\<open>read_array\<close>: the caller's buffer is the memory at the pointer, a function of the
  index. The method touches neither the component nor the bus.
\<close>

function pop_loop ::
  "nat \<Rightarrow> nat \<Rightarrow> nat \<Rightarrow> (nat \<Rightarrow> u8) \<Rightarrow> RingBuffer \<Rightarrow> (nat \<Rightarrow> u8) \<times> RingBuffer" where
  "pop_loop SIZE i len buffer rb =
     (if i < len
      then (let (ok, item, rb1) = pop SIZE (buffer i) rb
            in pop_loop SIZE (i + 1) len (buffer(i := item)) rb1)
      else (buffer, rb))"
  by pat_completeness auto
termination
  by (relation "measure (\<lambda>(SIZE, i, len, buffer, rb). len - i)") auto

definition read_array ::
  "nat \<Rightarrow> (nat \<Rightarrow> u8) \<Rightarrow> nat \<Rightarrow> WK2132Channel \<Rightarrow> bool \<times> (nat \<Rightarrow> u8) \<times> WK2132Channel" where
  "read_array XFER_MAX_SIZE buffer len ch =
     (let available = count (receive_buffer_m ch);
          (len1, status) = (if len > available then (available, False) else (len, True));
          (buffer1, rb1) = pop_loop XFER_MAX_SIZE 0 len1 buffer (receive_buffer_m ch)
      in (status, buffer1, ch\<lparr>receive_buffer_m := rb1\<rparr>))"

subsection \<open>Namespace \<^verbatim>\<open>wk2132\<close>: the setup path of \<^verbatim>\<open>wk2132.cpp\<close>\<close>

text \<open>
  The older component has no register proxy: it reads and writes registers through two
  methods of the component. A read returns \<^verbatim>\<open>*buffer\<close>; the buffer after the call is the
  second component of the result.
\<close>

definition write_wk2132_register_m ::
  "u8 \<Rightarrow> u8 \<Rightarrow> u8 list \<Rightarrow> nat \<Rightarrow> WK2132Component \<Rightarrow> WK2132Component" where
  "write_wk2132_register_m reg_number channel buffer len c =
     (let c1 = c\<lparr>address_m := i2c_address (base_address_m c) channel 0\<rparr>;
          (err, c2) = write_register reg_number (take len buffer) c1
      in if err = ERROR_OK then c2\<lparr>status_warning := False\<rparr>
         else c2\<lparr>status_warning := True\<rparr>)"

definition read_wk2132_register_m ::
  "u8 \<Rightarrow> u8 \<Rightarrow> nat \<Rightarrow> WK2132Component \<Rightarrow> u8 \<times> (nat \<Rightarrow> u8) \<times> WK2132Component" where
  "read_wk2132_register_m reg_number channel len c =
     (let c1 = c\<lparr>address_m := i2c_address (base_address_m c) channel 0\<rparr>;
          (rep, c2) = read_register reg_number len c1;
          buffer = bytes rep
      in if error rep = ERROR_OK then (buffer 0, buffer, c2\<lparr>status_warning := False\<rparr>)
         else (buffer 0, buffer, c2\<lparr>status_warning := True\<rparr>))"

definition wk2132_set_baudrate_m ::
  "WK2132Component \<Rightarrow> WK2132Channel \<Rightarrow> WK2132Component option" where
  "wk2132_set_baudrate_m c ch =
     (if baud_divisor (baud_rate_m ch) = 0 then None
      else
        let vi = val_int (crystal_m c) (baud_rate_m ch);
            vd = val_dec (crystal_m c) (baud_rate_m ch);
            c1 = write_wk2132_register_m REG_WK2132_SPAGE (channel_m ch) [1] 1 c;
            c2 = c1\<lparr>page1_m := True\<rparr>;
            c3 = write_wk2132_register_m REG_WK2132_BRH (channel_m ch) [baud_high vi] 1 c2;
            c4 = write_wk2132_register_m REG_WK2132_BRL (channel_m ch) [baud_low vi] 1 c3;
            c5 = write_wk2132_register_m REG_WK2132_BRD (channel_m ch) [baud_dec vd] 1 c4;
            c6 = write_wk2132_register_m REG_WK2132_SPAGE (channel_m ch) [0] 1 c5
        in Some (c6\<lparr>page1_m := False\<rparr>))"

definition wk2132_set_line_param_m ::
  "WK2132Component \<Rightarrow> WK2132Channel \<Rightarrow> WK2132Component \<times> WK2132Channel" where
  "wk2132_set_line_param_m c ch =
     (let ch1 = ch\<lparr>data_bits_m := 8\<rparr>;
          (got, buffer, c1) = read_wk2132_register_m REG_WK2132_LCR (channel_m ch1) 1 c;
          lcr0 = buffer 0 AND 0xF0;
          lcr1 = (if stop_bits_m ch1 = 2 then lcr0 OR 0x01 else lcr0);
          lcr2 = (case parity_m ch1 of
                    UART_CONFIG_PARITY_ODD \<Rightarrow> lcr1 OR push_bit 1 0x5
                  | UART_CONFIG_PARITY_EVEN \<Rightarrow> lcr1 OR push_bit 1 0x6
                  | UART_CONFIG_PARITY_NONE \<Rightarrow> lcr1)
      in (write_wk2132_register_m REG_WK2132_LCR (channel_m ch1) [lcr2] 1 c1, ch1))"

definition wk2132_setup_channel_m ::
  "WK2132Component \<Rightarrow> WK2132Channel \<Rightarrow> (WK2132Component \<times> WK2132Channel) option" where
  "wk2132_setup_channel_m c ch =
     (let (got0, gena_buffer, c1) = read_wk2132_register_m REG_WK2132_GENA 0 1 c;
          gena = (if channel_m ch = 0 then gena_buffer 0 OR 0x01 else gena_buffer 0 OR 0x02);
          c2 = write_wk2132_register_m REG_WK2132_GENA 0 [gena] 1 c1;
          grst0 = (0 :: u8);
          (got1, gena_buffer1, c3) = read_wk2132_register_m REG_WK2132_GRST 0 1 c2;
          grst = (if channel_m ch = 0 then grst0 OR 0x01 else grst0 OR 0x02);
          c4 = write_wk2132_register_m REG_WK2132_GRST 0 [grst] 1 c3;
          c5 = c4\<lparr>page1_m := False\<rparr>;
          c6 = write_wk2132_register_m REG_WK2132_SPAGE (channel_m ch) [0] 1 c5;
          c7 = write_wk2132_register_m REG_WK2132_FCR (channel_m ch) [0x0F] 1 c6;
          c8 = write_wk2132_register_m REG_WK2132_SCR (channel_m ch) [0x3] 1 c7
      in case wk2132_set_baudrate_m c8 ch of
           None \<Rightarrow> None
         | Some c9 \<Rightarrow> Some (wk2132_set_line_param_m c9 ch))"

fun wk2132_setup_children ::
  "WK2132Component \<Rightarrow> WK2132Channel list \<Rightarrow> (WK2132Component \<times> WK2132Channel list) option" where
  "wk2132_setup_children c [] = Some (c, [])"
| "wk2132_setup_children c (child # rest) =
     (case wk2132_setup_channel_m c child of
        None \<Rightarrow> None
      | Some (c1, child1) \<Rightarrow>
          (case wk2132_setup_children c1 rest of
             None \<Rightarrow> None
           | Some (c2, rest1) \<Rightarrow> Some (c2, child1 # rest1)))"

text \<open>
  \<^verbatim>\<open>WK2132Component::setup\<close> of namespace \<^verbatim>\<open>wk2132\<close>: ``we test communication with
  device'' reads the global enable register into \<^verbatim>\<open>data_\<close>; the value returned and the
  error of the read are not looked at.
\<close>

definition wk2132_component_setup ::
  "WK2132Component \<Rightarrow> WK2132Channel list \<Rightarrow> (WK2132Component \<times> WK2132Channel list) option" where
  "wk2132_component_setup c children =
     (let c0 = c\<lparr>base_address_m := address_m c\<rparr>;
          (got, buffer, c1) = read_wk2132_register_m REG_WK2132_GENA 0 1 c0;
          c2 = c1\<lparr>data_m := buffer 0\<rparr>
      in wk2132_setup_children c2 children)"

subsection \<open>Notions used to state the properties\<close>

text \<open>
  The amount a drain transfers, as the specification words it: the minimum of the FIFO count
  reported by \<^verbatim>\<open>rx_in_fifo_\<close>, the free space of the buffer and \<^verbatim>\<open>XFER_MAX_SIZE\<close>.
\<close>

definition drain_clamp :: "nat \<Rightarrow> WK2132Component \<Rightarrow> WK2132Channel \<Rightarrow> nat" where
  "drain_clamp XFER_MAX_SIZE c ch =
     min (fst (rx_in_fifo_m c ch)) (min (free XFER_MAX_SIZE (receive_buffer_m ch)) XFER_MAX_SIZE)"

text \<open>
  The answer of the bus to the transaction that follows \<^verbatim>\<open>rx_in_fifo_\<close>: in a drain that
  transfers something, the raw FIFO read.
\<close>

definition fifo_reply :: "WK2132Component \<Rightarrow> WK2132Channel \<Rightarrow> reply" where
  "fifo_reply c ch =
     (let c1 = snd (rx_in_fifo_m c ch) in respond (bus c1) (length (journal (bus c1))))"

text \<open>The position in the array of the \<open>i\<close>-th oldest item of a ring buffer.\<close>

definition front_index :: "nat \<Rightarrow> RingBuffer \<Rightarrow> nat \<Rightarrow> nat" where
  "front_index SIZE rb i = (if i = 0 then tail_m rb else (tail_m rb + i) mod SIZE)"

text \<open>
  The bus transactions of one \<^verbatim>\<open>setup_channel_\<close>: how many there are in namespace
  \<^verbatim>\<open>wk2132_i2c\<close> (one more in a verbose build), all at the address of the channel's
  registers, and the addresses of those of namespace \<^verbatim>\<open>wk2132\<close>, four at the global
  address and ten at the channel's.
\<close>

definition setup_channel_transactions :: "bool \<Rightarrow> WK2132Channel \<Rightarrow> nat" where
  "setup_channel_transactions verbose ch =
     9 + (if stop_bits_m ch = 2 then 2 else 0)
       + (case parity_m ch of UART_CONFIG_PARITY_NONE \<Rightarrow> 0 | _ \<Rightarrow> 2)
       + (if verbose then 1 else 0)"

definition setup_channel_addresses :: "bool \<Rightarrow> u8 \<Rightarrow> WK2132Channel \<Rightarrow> u8 list" where
  "setup_channel_addresses verbose base ch =
     replicate (setup_channel_transactions verbose ch) (i2c_address base (channel_m ch) 0)"

definition wk2132_setup_channel_addresses :: "u8 \<Rightarrow> WK2132Channel \<Rightarrow> u8 list" where
  "wk2132_setup_channel_addresses base ch =
     replicate 4 (i2c_address base 0 0) @ replicate 10 (i2c_address base (channel_m ch) 0)"

text \<open>Whether a transaction writes the page-select register.\<close>

fun is_page_write :: "transaction \<Rightarrow> bool" where
  "is_page_write (WRITE_REGISTER a r bs) = (r = REG_WK2132_SPAGE)"
| "is_page_write t = False"

subsection \<open>Example configurations\<close>

definition reply_ok :: "u8 \<Rightarrow> reply" where
  "reply_ok v = \<lparr>error = ERROR_OK, bytes = (\<lambda>i. v)\<rparr>"

definition reply_failed :: "u8 \<Rightarrow> reply" where
  "reply_failed v = \<lparr>error = ERROR_CODE 2, bytes = (\<lambda>i. v)\<rparr>"

definition example_component :: "(nat \<Rightarrow> reply) \<Rightarrow> WK2132Component" where
  "example_component answers =
     \<lparr>bus = \<lparr>respond = answers, journal = []\<rparr>, address_m = 0x10, status_warning = False,
      is_failed = False, crystal_m = 14745600, base_address_m = 0x10, test_mode_m = 0,
      page1_m = False, data_m = 0\<rparr>"

definition example_channel :: "u8 \<Rightarrow> RingBuffer \<Rightarrow> WK2132Channel" where
  "example_channel n buffer =
     \<lparr>receive_buffer_m = buffer, channel_m = n, baud_rate_m = 9600, stop_bits_m = 1,
      data_bits_m = 0, parity_m = UART_CONFIG_PARITY_NONE\<rparr>"

definition buffer_235_of_255 :: RingBuffer where
  "buffer_235_of_255 = \<lparr>rb_m = replicate 255 0, tail_m = 0, head_m = 235, count_m = 235\<rparr>"

definition buffer_full_2 :: RingBuffer where
  "buffer_full_2 = \<lparr>rb_m = [1, 2], tail_m = 0, head_m = 0, count_m = 2\<rparr>"

definition buffer_5_of_8 :: RingBuffer where
  "buffer_5_of_8 = \<lparr>rb_m = [10, 11, 12, 13, 14, 15, 16, 17], tail_m = 6, head_m = 3, count_m = 5\<rparr>"


definition answers_fifo_full :: "nat \<Rightarrow> reply" where
  "answers_fifo_full n = (if n = 0 then reply_ok 0 else reply_ok 8)"

text \<open>Bus answers: every transaction succeeds; only the first fails; every one fails.\<close>

definition answers_all_ok :: "nat \<Rightarrow> reply" where
  "answers_all_ok n = reply_ok 0"

definition answers_first_fails :: "nat \<Rightarrow> reply" where
  "answers_first_fails n = (if n = 0 then reply_failed 0 else reply_ok 0)"

definition answers_all_fail :: "nat \<Rightarrow> reply" where
  "answers_all_fail n = reply_failed 0"

text \<open>A component on a healthy bus, in page 0, and its channel 1 with an empty buffer.\<close>

definition healthy_component :: WK2132Component where
  "healthy_component = example_component answers_all_ok"

definition channel_1 :: WK2132Channel where
  "channel_1 = example_channel 1 (RingBuffer_init 255)"

text \<open>The proxy of the line configuration register of channel 1.\<close>

definition lcr_of_channel_1 :: WK2132Register where
  "lcr_of_channel_1 = channel_reg channel_1 REG_WK2132_LCR"

text \<open>A component whose next bus transaction fails, and one whose every transaction fails.\<close>

definition unlucky_component :: WK2132Component where
  "unlucky_component = example_component answers_first_fails"

definition dead_component :: WK2132Component where
  "dead_component = example_component answers_all_fail"

text \<open>The bus addresses of the transactions issued so far, oldest first.\<close>

definition bus_addresses :: "WK2132Component \<Rightarrow> u8 list" where
  "bus_addresses c = map bus_address (journal (bus c))"

text \<open>What \<^verbatim>\<open>setup_channel_\<close> leaves of a channel, in namespace \<^verbatim>\<open>wk2132_i2c\<close> and in \<^verbatim>\<open>wk2132\<close>.\<close>

definition channel_after_setup :: "WK2132Channel \<Rightarrow> WK2132Channel" where
  "channel_after_setup ch =
     ch\<lparr>receive_buffer_m := clear (receive_buffer_m ch), data_bits_m := 8\<rparr>"

definition wk2132_channel_after_setup :: "WK2132Channel \<Rightarrow> WK2132Channel" where
  "wk2132_channel_after_setup ch = ch\<lparr>data_bits_m := 8\<rparr>"

definition channel_0 :: WK2132Channel where
  "channel_0 = example_channel 0 (RingBuffer_init 255)"

section \<open>Properties of the ring buffer\<close>

declare push_loop.simps [simp del] pop_loop.simps [simp del] reduce_val_dec.simps [simp del]

lemma size_t_inc_below: "n < SIZE \<Longrightarrow> SIZE < SIZE_T_MOD \<Longrightarrow> size_t_inc n = n + 1"
  by (simp add: size_t_inc_def)

lemma size_t_sub_le:
  assumes "b \<le> a" and "a < SIZE_T_MOD"
  shows "size_t_sub a b = a - b"
proof -
  have eq: "a + SIZE_T_MOD - b = (a - b) + SIZE_T_MOD"
    using assms(1) by (rule Nat.diff_add_assoc2)
  have lt: "a - b < SIZE_T_MOD"
    using assms(2) by (rule less_imp_diff_less)
  have "(a - b + SIZE_T_MOD) mod SIZE_T_MOD = (a - b) mod SIZE_T_MOD"
    by (rule mod_add_self2)
  also have "\<dots> = a - b"
    using lt by (rule mod_less)
  finally show ?thesis
    unfolding size_t_sub_def eq .
qed

lemma size_t_dec_as_sub: "size_t_dec n = size_t_sub n 1"
  unfolding size_t_dec_def size_t_sub_def ..

lemma size_t_dec_above:
  assumes "0 < n" and "n < SIZE_T_MOD"
  shows "size_t_dec n = n - 1"
proof -
  have "1 \<le> n" using assms(1) by simp
  then have "size_t_sub n 1 = n - 1"
    using assms(2) by (rule size_t_sub_le)
  then show ?thesis
    unfolding size_t_dec_as_sub .
qed

lemma count_rb_apply:
  assumes "count_m rb \<le> SIZE" and "SIZE < SIZE_T_MOD"
  shows "count_m (rb_apply SIZE c rb) \<le> SIZE"
proof (cases c)
  case (Push x)
  show ?thesis
  proof (cases "count_m rb = SIZE")
    case True
    then show ?thesis by (simp add: Push push_def is_full_def)
  next
    case False
    with assms have "count_m rb < SIZE" by simp
    then have "size_t_inc (count_m rb) = count_m rb + 1"
      using assms(2) by (rule size_t_inc_below)
    with \<open>count_m rb < SIZE\<close> show ?thesis by (simp add: Push push_def is_full_def)
  qed
next
  case Pop
  show ?thesis
  proof (cases "count_m rb = 0")
    case True
    then show ?thesis by (simp add: Pop pop_def is_empty_def)
  next
    case False
    with assms have "size_t_dec (count_m rb) = count_m rb - 1"
      by (intro size_t_dec_above) simp_all
    with assms False show ?thesis by (simp add: Pop pop_def is_empty_def)
  qed
next
  case Peek
  with assms show ?thesis by (simp add: peek_def)
next
  case Clear
  then show ?thesis by (simp add: clear_def)
qed

lemma count_rb_run:
  "count_m rb \<le> SIZE \<Longrightarrow> SIZE < SIZE_T_MOD \<Longrightarrow> count_m (rb_run SIZE cs rb) \<le> SIZE"
  by (induction cs arbitrary: rb) (simp_all add: count_rb_apply)

text \<open>
  Claim C7. A push on a full buffer returns false and changes nothing; a pop or a peek on
  an empty buffer returns false and changes neither the buffer nor the item; and after any
  sequence of calls, from the buffer as constructed or from any buffer whose count is at
  most \<^verbatim>\<open>SIZE\<close>, the count is at most \<^verbatim>\<open>SIZE\<close>. The count is an unsigned value with its
  wrap-around written out, so the bound also says that it never wraps below zero.
\<close>

theorem C7_ring_buffer_rejections_and_bounds:
  "(is_full SIZE full_rb \<longrightarrow> push SIZE x full_rb = (False, full_rb)) \<and>
   (is_empty empty_rb \<longrightarrow>
      pop SIZE item empty_rb = (False, item, empty_rb) \<and>
      peek item empty_rb = (False, item, empty_rb)) \<and>
   (SIZE < SIZE_T_MOD \<longrightarrow> count_m (rb_run SIZE calls (RingBuffer_init SIZE)) \<le> SIZE) \<and>
   (SIZE < SIZE_T_MOD \<and> count_m rb \<le> SIZE \<longrightarrow> count_m (rb_run SIZE calls rb) \<le> SIZE)"
proof -
  have "SIZE < SIZE_T_MOD \<Longrightarrow> count_m (rb_run SIZE calls (RingBuffer_init SIZE)) \<le> SIZE"
    by (rule count_rb_run) (simp_all add: RingBuffer_init_def)
  then show ?thesis
    by (simp add: push_def pop_def peek_def count_rb_run)
qed

theorem C7_witness:
  "is_full 2 buffer_full_2 \<and> push 2 7 buffer_full_2 = (False, buffer_full_2) \<and>
   is_empty (RingBuffer_init 2) \<and>
   pop 2 9 (RingBuffer_init 2) = (False, 9, RingBuffer_init 2) \<and>
   peek 9 (RingBuffer_init 2) = (False, 9, RingBuffer_init 2) \<and>
   2 < SIZE_T_MOD \<and>
   count_m (rb_run 2 [Push 1, Push 2, Push 3, Pop, Peek, Pop, Pop, Clear, Pop] (RingBuffer_init 2)) \<le> 2 \<and>
   count_m buffer_full_2 \<le> 2 \<and>
   count_m (rb_run 2 [Push 1, Push 2, Push 3, Pop, Peek, Pop, Pop, Clear, Pop] buffer_full_2) \<le> 2"
  using C7_ring_buffer_rejections_and_bounds
    [where SIZE = 2 and full_rb = buffer_full_2 and x = 7 and empty_rb = "RingBuffer_init 2"
       and item = 9 and calls = "[Push 1, Push 2, Push 3, Pop, Peek, Pop, Pop, Clear, Pop]"
       and rb = buffer_full_2]
  by (simp add: is_full_def is_empty_def buffer_full_2_def RingBuffer_init_def SIZE_T_MOD_def)

section \<open>Register access\<close>

lemma reg_set_journal:
  "journal (bus (reg_set r v c)) =
     journal (bus c) @
       [WRITE_REGISTER (i2c_address (base_address_m c) (reg_channel_m r) 0) (register_m r) [v]]"
  by (simp add: reg_set_def write_register_def transact_def split_def Let_def)

lemma reg_set_respond: "respond (bus (reg_set r v c)) = respond (bus c)"
  by (simp add: reg_set_def write_register_def transact_def split_def Let_def)

lemma reg_set_kept:
  "base_address_m (reg_set r v c) = base_address_m c"
  "is_failed (reg_set r v c) = is_failed c"
  "crystal_m (reg_set r v c) = crystal_m c"
  "page1_m (reg_set r v c) = page1_m c"
  by (simp_all add: reg_set_def write_register_def transact_def split_def Let_def)

lemma reg_set_warning:
  "status_warning (reg_set r v c) =
     (error (respond (bus c) (length (journal (bus c)))) \<noteq> ERROR_OK)"
  by (simp add: reg_set_def write_register_def transact_def split_def Let_def)

lemma reg_get_journal:
  "journal (bus (snd (reg_get r c))) =
     journal (bus c) @
       [READ_REGISTER (i2c_address (base_address_m c) (reg_channel_m r) 0) (register_m r) 1]"
  by (simp add: reg_get_def read_register_def transact_def split_def Let_def)

lemma reg_get_respond: "respond (bus (snd (reg_get r c))) = respond (bus c)"
  by (simp add: reg_get_def read_register_def transact_def split_def Let_def)

lemma reg_get_value:
  "fst (reg_get r c) = bytes (respond (bus c) (length (journal (bus c)))) 0"
  by (simp add: reg_get_def read_register_def transact_def split_def Let_def)

lemma reg_get_kept:
  "base_address_m (snd (reg_get r c)) = base_address_m c"
  "is_failed (snd (reg_get r c)) = is_failed c"
  "crystal_m (snd (reg_get r c)) = crystal_m c"
  "page1_m (snd (reg_get r c)) = page1_m c"
  by (simp_all add: reg_get_def read_register_def transact_def split_def Let_def)

lemma reg_get_warning:
  "status_warning (snd (reg_get r c)) =
     (error (respond (bus c) (length (journal (bus c)))) \<noteq> ERROR_OK)"
  by (simp add: reg_get_def read_register_def transact_def split_def Let_def)

lemma switch_page_journal:
  "journal (bus (switch_page p ch c)) =
     journal (bus c) @
       [WRITE_REGISTER (i2c_address (base_address_m c) (channel_m ch) 0) REG_WK2132_SPAGE
          [if p then 1 else 0]]"
  by (simp add: switch_page_def reg_assign_def reg_set_journal channel_reg_def)

lemma switch_page_kept:
  "base_address_m (switch_page p ch c) = base_address_m c"
  "is_failed (switch_page p ch c) = is_failed c"
  "crystal_m (switch_page p ch c) = crystal_m c"
  "page1_m (switch_page p ch c) = p"
  "respond (bus (switch_page p ch c)) = respond (bus c)"
  by (simp_all add: switch_page_def reg_assign_def reg_set_kept reg_set_respond)

lemma val_dec_zero:
  assumes "baud_divisor baud_rate \<noteq> 0"
  shows "val_dec crystal baud_rate = 0"
proof -
  have "0 < baud_divisor baud_rate"
    using assms by (simp add: word_greater_zero_iff)
  then have "crystal mod baud_divisor baud_rate < baud_divisor baud_rate"
    by (rule word_mod_less_divisor)
  then have "(crystal mod baud_divisor baud_rate) div baud_divisor baud_rate = 0"
    by (rule div_word_less)
  then show ?thesis
    by (simp add: val_dec_def)
qed

lemma baud_dec_zero: "baud_dec 0 = 0"
  by (subst baud_dec_def, subst reduce_val_dec.simps) simp

lemma set_baudrate_journal:
  assumes "baud_divisor (baud_rate_m ch) \<noteq> 0"
  shows "\<exists>c1. set_baudrate_m c ch = Some c1 \<and>
     journal (bus c1) = journal (bus c) @
       (let a = i2c_address (base_address_m c) (channel_m ch) 0;
            vi = val_int (crystal_m c) (baud_rate_m ch);
            vd = val_dec (crystal_m c) (baud_rate_m ch)
        in [WRITE_REGISTER a REG_WK2132_SPAGE [1],
            WRITE_REGISTER a REG_WK2132_BRH [baud_high vi],
            WRITE_REGISTER a REG_WK2132_BRL [baud_low vi],
            WRITE_REGISTER a REG_WK2132_BRD [baud_dec vd],
            WRITE_REGISTER a REG_WK2132_SPAGE [0]])"
  using assms
  by (simp add: set_baudrate_m_def Let_def switch_page_journal switch_page_kept reg_assign_def
      reg_set_journal reg_set_kept channel_reg_def)

section \<open>The FIFO drain\<close>

lemma push_not_full:
  assumes "count_m rb < SIZE" and "SIZE < SIZE_T_MOD"
  shows "fst (push SIZE x rb) = True" and "count_m (snd (push SIZE x rb)) = count_m rb + 1"
proof -
  have inc: "size_t_inc (count_m rb) = count_m rb + 1"
    using assms by (rule size_t_inc_below)
  have nf: "\<not> is_full SIZE rb"
    using assms(1) by (simp add: is_full_def)
  show "fst (push SIZE x rb) = True"
    using nf by (simp add: push_def)
  show "count_m (snd (push SIZE x rb)) = count_m rb + 1"
    using nf inc by (simp add: push_def)
qed

lemma push_loop_count:
  "i \<le> n \<Longrightarrow> count_m rb + (n - i) \<le> SIZE \<Longrightarrow> SIZE < SIZE_T_MOD \<Longrightarrow>
   count_m (push_loop SIZE data i n rb) = count_m rb + (n - i)"
proof (induction SIZE data i n rb rule: push_loop.induct)
  case (1 SIZE data i n rb)
  show ?case
  proof (cases "i < n")
    case True
    then have lt: "count_m rb < SIZE"
      using "1.prems" by simp
    have c1: "count_m (snd (push SIZE (data i) rb)) = count_m rb + 1"
      using lt "1.prems"(3) by (rule push_not_full(2))
    have "count_m (push_loop SIZE data (i + 1) n (snd (push SIZE (data i) rb)))
          = count_m (snd (push SIZE (data i) rb)) + (n - (i + 1))"
      using True "1.prems" c1 by (intro "1.IH") simp_all
    then show ?thesis
      using True c1 by (subst push_loop.simps) simp
  next
    case False
    then show ?thesis
      using "1.prems" by (subst push_loop.simps) simp
  qed
qed

lemma push_loop_split:
  "i \<le> k \<Longrightarrow> k \<le> n \<Longrightarrow>
   push_loop SIZE data i n rb = push_loop SIZE data k n (push_loop SIZE data i k rb)"
proof (induction SIZE data i k rb rule: push_loop.induct)
  case (1 SIZE data i k rb)
  show ?case
  proof (cases "i < k")
    case True
    then have "i < n" using "1.prems" by simp
    have "push_loop SIZE data (i + 1) n (snd (push SIZE (data i) rb))
          = push_loop SIZE data k n (push_loop SIZE data (i + 1) k (snd (push SIZE (data i) rb)))"
      using True "1.prems" by (intro "1.IH") simp_all
    then show ?thesis
      using True \<open>i < n\<close>
      by (subst push_loop.simps, subst (2) push_loop.simps) simp
  next
    case False
    then have "i = k" using "1.prems" by simp
    then show ?thesis
      by (subst (3) push_loop.simps) simp
  qed
qed

lemma xfer_to_transfer:
  "fst (xfer_fifo_to_buffer_m X c ch) = drain_clamp X c ch"
  by (simp add: xfer_fifo_to_buffer_m_def drain_clamp_def split_def Let_def min_def)

lemma xfer_nothing:
  "drain_clamp X c ch = 0 \<Longrightarrow>
   snd (xfer_fifo_to_buffer_m X c ch) = (snd (rx_in_fifo_m c ch), ch)"
  by (simp add: xfer_fifo_to_buffer_m_def drain_clamp_def split_def Let_def min_def split: if_splits)

lemma xfer_something_buffer:
  "drain_clamp X c ch \<noteq> 0 \<Longrightarrow>
   snd (snd (xfer_fifo_to_buffer_m X c ch)) =
     ch\<lparr>receive_buffer_m :=
          push_loop X (bytes (fifo_reply c ch)) 0 (drain_clamp X c ch) (receive_buffer_m ch)\<rparr>"
  by (simp add: xfer_fifo_to_buffer_m_def drain_clamp_def fifo_reply_def read_raw_def transact_def
      split_def Let_def min_def split: if_splits)

lemma xfer_something_journal:
  "drain_clamp X c ch \<noteq> 0 \<Longrightarrow>
   journal (bus (fst (snd (xfer_fifo_to_buffer_m X c ch)))) =
     journal (bus (snd (rx_in_fifo_m c ch))) @
       [READ (i2c_address (base_address_m (snd (rx_in_fifo_m c ch))) (channel_m ch) 1)
             (drain_clamp X c ch)]"
  by (simp add: xfer_fifo_to_buffer_m_def drain_clamp_def read_raw_def transact_def
      split_def Let_def min_def split: if_splits)

lemma free_le:
  "count_m rb \<le> SIZE \<Longrightarrow> SIZE < SIZE_T_MOD \<Longrightarrow> free SIZE rb = SIZE - count_m rb"
  unfolding free_def by (rule size_t_sub_le)

lemma drain_clamp_le_free:
  "drain_clamp X c ch \<le> free X (receive_buffer_m ch)"
  by (simp add: drain_clamp_def)

lemma drain_clamp_le_max: "drain_clamp X c ch \<le> X"
  by (simp add: drain_clamp_def)

lemma xfer_count:
  assumes "count_m (receive_buffer_m ch) \<le> X" and "X < SIZE_T_MOD"
  shows "count_m (receive_buffer_m (snd (snd (xfer_fifo_to_buffer_m X c ch)))) =
         count_m (receive_buffer_m ch) + drain_clamp X c ch"
proof (cases "drain_clamp X c ch = 0")
  case True
  then show ?thesis by (simp add: xfer_nothing)
next
  case False
  have "drain_clamp X c ch \<le> X - count_m (receive_buffer_m ch)"
    using drain_clamp_le_free [of X c ch] assms by (simp add: free_le)
  then have "count_m (receive_buffer_m ch) + (drain_clamp X c ch - 0) \<le> X"
    using assms(1) by simp
  then have "count_m (push_loop X (bytes (fifo_reply c ch)) 0 (drain_clamp X c ch) (receive_buffer_m ch))
        = count_m (receive_buffer_m ch) + (drain_clamp X c ch - 0)"
    using assms(2) by (intro push_loop_count) simp_all
  then show ?thesis
    using False by (simp add: xfer_something_buffer)
qed

lemma rx_in_fifo_journal:
  "\<exists>ts. journal (bus (snd (rx_in_fifo_m c ch))) = journal (bus c) @ ts \<and>
        (\<forall>t \<in> set ts. \<exists>a r. t = READ_REGISTER a r 1)"
  by (simp add: rx_in_fifo_m_def split_def Let_def reg_get_journal)

text \<open>
  Claim C1. For a receive buffer holding at most \<^verbatim>\<open>XFER_MAX_SIZE\<close> items (its capacity), a
  drain returns the minimum \<open>m\<close> of the FIFO count reported by \<^verbatim>\<open>rx_in_fifo_\<close>, the free
  space of the buffer and \<^verbatim>\<open>XFER_MAX_SIZE\<close>, and the count of the buffer grows by exactly
  \<open>m\<close>. \<^verbatim>\<open>rx_in_fifo_\<close> itself only reads registers. When \<open>m\<close> is 0 the drain returns 0 and
  leaves the component as \<^verbatim>\<open>rx_in_fifo_\<close> left it, with no raw FIFO read, and the channel
  unchanged; otherwise it issues exactly one raw FIFO read, of \<open>m\<close> bytes.
\<close>

theorem C1_drain_moves_clamped_amount:
  assumes "count_m (receive_buffer_m ch) \<le> XFER_MAX_SIZE" and "XFER_MAX_SIZE < SIZE_T_MOD"
  shows "let fifo_count = fst (rx_in_fifo_m c ch);
             c1 = snd (rx_in_fifo_m c ch);
             m = min fifo_count (min (free XFER_MAX_SIZE (receive_buffer_m ch)) XFER_MAX_SIZE);
             (moved, c2, ch2) = xfer_fifo_to_buffer_m XFER_MAX_SIZE c ch
         in moved = m \<and>
            count (receive_buffer_m ch2) = count (receive_buffer_m ch) + m \<and>
            (\<exists>ts. journal (bus c1) = journal (bus c) @ ts \<and>
                  (\<forall>t \<in> set ts. \<exists>a r. t = READ_REGISTER a r 1)) \<and>
            (m = 0 \<longrightarrow> moved = 0 \<and> c2 = c1 \<and> ch2 = ch) \<and>
            (m \<noteq> 0 \<longrightarrow> journal (bus c2) = journal (bus c1) @
                 [READ (i2c_address (base_address_m c1) (channel_m ch) 1) m])"
proof -
  let ?x = "xfer_fifo_to_buffer_m XFER_MAX_SIZE c ch"
  let ?m = "drain_clamp XFER_MAX_SIZE c ch"
  have moved: "fst ?x = ?m"
    by (rule xfer_to_transfer)
  have cnt: "count (receive_buffer_m (snd (snd ?x))) = count (receive_buffer_m ch) + ?m"
    using assms by (simp add: count_def xfer_count)
  have zero: "?m = 0 \<Longrightarrow> fst (snd ?x) = snd (rx_in_fifo_m c ch) \<and> snd (snd ?x) = ch"
    by (simp add: xfer_nothing)
  have more: "?m \<noteq> 0 \<Longrightarrow> journal (bus (fst (snd ?x))) = journal (bus (snd (rx_in_fifo_m c ch))) @
       [READ (i2c_address (base_address_m (snd (rx_in_fifo_m c ch))) (channel_m ch) 1) ?m]"
    by (rule xfer_something_journal)
  have m: "?m = min (fst (rx_in_fifo_m c ch))
                  (min (free XFER_MAX_SIZE (receive_buffer_m ch)) XFER_MAX_SIZE)"
    by (simp add: drain_clamp_def)
  show ?thesis
    unfolding Let_def split_def
    using moved cnt zero more rx_in_fifo_journal [of c ch] unfolding m by simp
qed

lemma example_rx_50:
  "fst (rx_in_fifo_m (example_component (\<lambda>n. reply_ok 50)) (example_channel 0 b)) = 50"
  by (simp add: rx_in_fifo_m_def reg_get_value split_def Let_def example_component_def reply_ok_def)

theorem C1_witness:
  "count_m (receive_buffer_m (example_channel 0 buffer_235_of_255)) \<le> 255 \<and>
   255 < SIZE_T_MOD \<and>
   fst (rx_in_fifo_m (example_component (\<lambda>n. reply_ok 50)) (example_channel 0 buffer_235_of_255)) = 50 \<and>
   free 255 (receive_buffer_m (example_channel 0 buffer_235_of_255)) = 20 \<and>
   fst (xfer_fifo_to_buffer_m 255 (example_component (\<lambda>n. reply_ok 50))
          (example_channel 0 buffer_235_of_255)) = 20 \<and>
   count (receive_buffer_m (snd (snd (xfer_fifo_to_buffer_m 255 (example_component (\<lambda>n. reply_ok 50))
          (example_channel 0 buffer_235_of_255))))) = 255"
proof -
  have h1: "count_m (receive_buffer_m (example_channel 0 buffer_235_of_255)) \<le> 255"
    by (simp add: example_channel_def buffer_235_of_255_def)
  have h2: "255 < SIZE_T_MOD"
    by (simp add: SIZE_T_MOD_def)
  have f: "free 255 (receive_buffer_m (example_channel 0 buffer_235_of_255)) = 20"
    by (simp add: free_le h1 h2) (simp add: example_channel_def buffer_235_of_255_def)
  have c: "count (receive_buffer_m (example_channel 0 buffer_235_of_255)) = 235"
    by (simp add: count_def example_channel_def buffer_235_of_255_def)
  show ?thesis
    using C1_drain_moves_clamped_amount [OF h1 h2, of "example_component (\<lambda>n. reply_ok 50)"]
    by (simp add: Let_def split_def example_rx_50 f c h1 h2)
qed

lemma push_loop_step:
  "push_loop SIZE data 0 (Suc k) rb = snd (push SIZE (data k) (push_loop SIZE data 0 k rb))"
proof -
  have "push_loop SIZE data 0 (Suc k) rb = push_loop SIZE data k (Suc k) (push_loop SIZE data 0 k rb)"
    by (rule push_loop_split) simp_all
  also have "\<dots> = push_loop SIZE data (k + 1) (Suc k) (snd (push SIZE (data k) (push_loop SIZE data 0 k rb)))"
    by (subst push_loop.simps) simp
  also have "\<dots> = snd (push SIZE (data k) (push_loop SIZE data 0 k rb))"
    by (subst push_loop.simps) simp
  finally show ?thesis .
qed

lemma push_loop_push_succeeds:
  assumes "k < m" and "count_m rb + m \<le> SIZE" and "SIZE < SIZE_T_MOD"
  shows "fst (push SIZE (data k) (push_loop SIZE data 0 k rb)) = True"
proof -
  have "count_m rb + (k - 0) \<le> SIZE"
    using assms(1,2) by simp
  then have "count_m (push_loop SIZE data 0 k rb) = count_m rb + (k - 0)"
    using assms(3) by (intro push_loop_count) simp_all
  then have "count_m (push_loop SIZE data 0 k rb) < SIZE"
    using assms(1,2) by simp
  then show ?thesis
    using assms(3) by (rule push_not_full(1))
qed

lemma drain_clamp_fits:
  assumes "count_m (receive_buffer_m ch) \<le> X" and "X < SIZE_T_MOD"
  shows "count_m (receive_buffer_m ch) + drain_clamp X c ch \<le> X"
proof -
  have "drain_clamp X c ch \<le> X - count_m (receive_buffer_m ch)"
    using drain_clamp_le_free [of X c ch] assms by (simp add: free_le)
  then show ?thesis
    using assms(1) by simp
qed

text \<open>
  Claim C8. In a drain on a buffer within its capacity, the amount to transfer is at most
  the free space; the buffer after the drain is the result of the transfer loop; and at
  every iteration \<open>k\<close> of that loop the push returns true, the buffer after \<open>k + 1\<close>
  iterations being what that push returns. The rejection branch of \<^verbatim>\<open>push\<close> is never
  taken.
\<close>

theorem C8_drain_pushes_succeed:
  assumes "count_m (receive_buffer_m ch) \<le> XFER_MAX_SIZE" and "XFER_MAX_SIZE < SIZE_T_MOD"
  shows "let to_transfer = min (fst (rx_in_fifo_m c ch))
                             (min (free XFER_MAX_SIZE (receive_buffer_m ch)) XFER_MAX_SIZE);
             data = bytes (fifo_reply c ch);
             rb0 = receive_buffer_m ch
         in to_transfer \<le> free XFER_MAX_SIZE rb0 \<and>
            (to_transfer \<noteq> 0 \<longrightarrow>
               receive_buffer_m (snd (snd (xfer_fifo_to_buffer_m XFER_MAX_SIZE c ch))) =
                 push_loop XFER_MAX_SIZE data 0 to_transfer rb0) \<and>
            (\<forall>k < to_transfer.
               fst (push XFER_MAX_SIZE (data k) (push_loop XFER_MAX_SIZE data 0 k rb0)) = True \<and>
               push_loop XFER_MAX_SIZE data 0 (k + 1) rb0 =
                 snd (push XFER_MAX_SIZE (data k) (push_loop XFER_MAX_SIZE data 0 k rb0)))"
proof -
  let ?m = "drain_clamp XFER_MAX_SIZE c ch"
  have fits: "count_m (receive_buffer_m ch) + ?m \<le> XFER_MAX_SIZE"
    using assms by (rule drain_clamp_fits)
  have a: "?m \<le> free XFER_MAX_SIZE (receive_buffer_m ch)"
    by (rule drain_clamp_le_free)
  have b: "?m \<noteq> 0 \<Longrightarrow>
      receive_buffer_m (snd (snd (xfer_fifo_to_buffer_m XFER_MAX_SIZE c ch))) =
        push_loop XFER_MAX_SIZE (bytes (fifo_reply c ch)) 0 ?m (receive_buffer_m ch)"
    by (simp add: xfer_something_buffer)
  have c: "\<And>k. k < ?m \<Longrightarrow>
      fst (push XFER_MAX_SIZE (bytes (fifo_reply c ch) k)
             (push_loop XFER_MAX_SIZE (bytes (fifo_reply c ch)) 0 k (receive_buffer_m ch))) = True"
    using fits assms(2) by (rule push_loop_push_succeeds [rotated])
  show ?thesis
    unfolding Let_def drain_clamp_def [symmetric]
    using a b c by (simp add: push_loop_step)
qed

lemma example_fifo_reply_50:
  "fifo_reply (example_component (\<lambda>n. reply_ok 50)) (example_channel 0 b) = reply_ok 50"
  by (simp add: fifo_reply_def rx_in_fifo_m_def reg_get_respond split_def Let_def)
     (simp add: example_component_def)

theorem C8_witness:
  "count_m (receive_buffer_m (example_channel 0 buffer_235_of_255)) \<le> 255 \<and>
   255 < SIZE_T_MOD \<and>
   min (fst (rx_in_fifo_m (example_component (\<lambda>n. reply_ok 50)) (example_channel 0 buffer_235_of_255)))
       (min (free 255 (receive_buffer_m (example_channel 0 buffer_235_of_255))) 255) = 20 \<and>
   fst (push 255 50 (push_loop 255 (\<lambda>i. 50) 0 19 buffer_235_of_255)) = True"
proof -
  have h1: "count_m (receive_buffer_m (example_channel 0 buffer_235_of_255)) \<le> 255"
    by (simp add: example_channel_def buffer_235_of_255_def)
  have h2: "255 < SIZE_T_MOD"
    by (simp add: SIZE_T_MOD_def)
  have f: "free 255 (receive_buffer_m (example_channel 0 buffer_235_of_255)) = 20"
    by (simp add: free_le h1 h2) (simp add: example_channel_def buffer_235_of_255_def)
  have r: "receive_buffer_m (example_channel 0 buffer_235_of_255) = buffer_235_of_255"
    by (simp add: example_channel_def)
  have f': "free 255 buffer_235_of_255 = 20"
    using f by (simp add: r)
  have b: "bytes (reply_ok 50) = (\<lambda>i. 50)"
    by (simp add: reply_ok_def)
  have "\<forall>k<20. fst (push 255 50 (push_loop 255 (\<lambda>i. 50) 0 k buffer_235_of_255)) = True"
    using C8_drain_pushes_succeed [OF h1 h2, of "example_component (\<lambda>n. reply_ok 50)"]
    by (simp add: Let_def example_rx_50 example_fifo_reply_50 f' r b)
  then have "fst (push 255 50 (push_loop 255 (\<lambda>i. 50) 0 19 buffer_235_of_255)) = True"
    by simp
  then show ?thesis
    using h1 h2 by (simp add: example_rx_50 f)
qed



lemma rx_in_fifo_quirk:
  assumes "bytes (respond (bus c) (length (journal (bus c)))) 0 = 0"
    and "bytes (respond (bus c) (length (journal (bus c)) + 1)) 0 AND FSR_RFEMPTY \<noteq> 0"
  shows "fst (rx_in_fifo_m c ch) = FIFO_SIZE"
  using assms
  by (simp add: rx_in_fifo_m_def reg_get_value reg_get_respond reg_get_journal split_def Let_def)


lemma size_t_to_int_small: "n < 2 ^ 31 \<Longrightarrow> size_t_to_int n = int n"
  by (simp add: size_t_to_int_def)

lemma below_int_max_below_size_t: "n < 2 ^ 31 \<Longrightarrow> n < SIZE_T_MOD"
  unfolding SIZE_T_MOD_def
  by (erule less_trans) simp

text \<open>
  Claim C10. For a receive buffer within its capacity \<^verbatim>\<open>XFER_MAX_SIZE\<close> (below
  \<open>2\<^sup>3\<^sup>1\<close>, so that the conversion to \<^verbatim>\<open>int\<close> keeps the value), \<^verbatim>\<open>available\<close> returns a
  value between 0 and \<^verbatim>\<open>XFER_MAX_SIZE\<close>, whatever the bus answers: also when
  \<^verbatim>\<open>rx_in_fifo_\<close> reports the 256 bytes of a full FIFO.
\<close>

theorem C10_available_at_most_one_transfer:
  assumes "count_m (receive_buffer_m ch) \<le> XFER_MAX_SIZE" and "XFER_MAX_SIZE < 2 ^ 31"
  shows "0 \<le> fst (available XFER_MAX_SIZE c ch) \<and>
         fst (available XFER_MAX_SIZE c ch) \<le> int XFER_MAX_SIZE"
proof (cases "count_m (receive_buffer_m ch) = 0")
  case True
  let ?m = "drain_clamp XFER_MAX_SIZE c ch"
  have le: "?m \<le> XFER_MAX_SIZE"
    by (rule drain_clamp_le_max)
  then have "?m < 2 ^ 31"
    using assms(2) by (rule le_less_trans)
  then have "size_t_to_int ?m = int ?m"
    by (rule size_t_to_int_small)
  moreover have "fst (available XFER_MAX_SIZE c ch) = size_t_to_int ?m"
    using True by (simp add: available_def count_def split_def Let_def xfer_to_transfer)
  ultimately show ?thesis
    using le by simp
next
  case False
  have "count_m (receive_buffer_m ch) < 2 ^ 31"
    using assms by (rule le_less_trans)
  then have "size_t_to_int (count_m (receive_buffer_m ch)) = int (count_m (receive_buffer_m ch))"
    by (rule size_t_to_int_small)
  moreover have "fst (available XFER_MAX_SIZE c ch) = size_t_to_int (count_m (receive_buffer_m ch))"
    using False by (simp add: available_def count_def Let_def)
  ultimately show ?thesis
    using assms(1) by simp
qed

theorem C10_witness:
  "count_m (receive_buffer_m (example_channel 0 (RingBuffer_init 255))) \<le> 255 \<and>
   (255 :: nat) < 2 ^ 31 \<and>
   fst (rx_in_fifo_m (example_component answers_fifo_full)
          (example_channel 0 (RingBuffer_init 255))) = 256 \<and>
   0 \<le> fst (available 255 (example_component answers_fifo_full)
               (example_channel 0 (RingBuffer_init 255))) \<and>
   fst (available 255 (example_component answers_fifo_full)
          (example_channel 0 (RingBuffer_init 255))) \<le> 255"
proof -
  let ?c = "example_component answers_fifo_full"
  let ?ch = "example_channel 0 (RingBuffer_init 255)"
  have h1: "count_m (receive_buffer_m ?ch) \<le> 255"
    by (simp add: example_channel_def RingBuffer_init_def)
  have h2: "(255 :: nat) < 2 ^ 31"
    by simp
  have rx: "fst (rx_in_fifo_m ?c ?ch) = 256"
    by (simp add: rx_in_fifo_quirk example_component_def reply_ok_def FSR_RFEMPTY_def FIFO_SIZE_def
        answers_fifo_full_def)
  show ?thesis
    using C10_available_at_most_one_transfer [OF h1 h2, of ?c] h1 rx by simp
qed

section \<open>The baud rate\<close>

lemma write_wk2132_register_journal:
  "journal (bus (write_wk2132_register_m reg channel buffer len c)) =
     journal (bus c) @ [WRITE_REGISTER (i2c_address (base_address_m c) channel 0) reg (take len buffer)]"
  by (simp add: write_wk2132_register_m_def write_register_def transact_def split_def Let_def)

lemma write_wk2132_register_kept:
  "base_address_m (write_wk2132_register_m reg channel buffer len c) = base_address_m c"
  "is_failed (write_wk2132_register_m reg channel buffer len c) = is_failed c"
  "crystal_m (write_wk2132_register_m reg channel buffer len c) = crystal_m c"
  "respond (bus (write_wk2132_register_m reg channel buffer len c)) = respond (bus c)"
  by (simp_all add: write_wk2132_register_m_def write_register_def transact_def split_def Let_def)

lemma wk2132_set_baudrate_journal:
  assumes "baud_divisor (baud_rate_m ch) \<noteq> 0"
  shows "\<exists>c1. wk2132_set_baudrate_m c ch = Some c1 \<and>
     journal (bus c1) = journal (bus c) @
       (let a = i2c_address (base_address_m c) (channel_m ch) 0;
            vi = val_int (crystal_m c) (baud_rate_m ch);
            vd = val_dec (crystal_m c) (baud_rate_m ch)
        in [WRITE_REGISTER a REG_WK2132_SPAGE [1],
            WRITE_REGISTER a REG_WK2132_BRH [baud_high vi],
            WRITE_REGISTER a REG_WK2132_BRL [baud_low vi],
            WRITE_REGISTER a REG_WK2132_BRD [baud_dec vd],
            WRITE_REGISTER a REG_WK2132_SPAGE [0]])"
  using assms
  by (simp add: wk2132_set_baudrate_m_def Let_def write_wk2132_register_journal
      write_wk2132_register_kept)

text \<open>
  Claim C5. Whenever \<^verbatim>\<open>baud_rate_ * 16\<close>, as the 32-bit product the code computes, is not
  zero: the quotient \<^verbatim>\<open>(crystal_ % (baud_rate_ * 16)) / (baud_rate_ * 16)\<close> is 0, so
  \<^verbatim>\<open>val_dec\<close> is 0; the guard \<^verbatim>\<open>val_dec > 0x0A\<close> of the reduction loop is false on entry
  and the loop returns its argument; and \<^verbatim>\<open>set_baudrate_\<close>, in both namespaces, returns
  after exactly five register writes, the fourth of which writes the byte 0 to the
  fractional baud register.
\<close>

theorem C5_fractional_baud_digit_is_zero:
  assumes "baud_divisor (baud_rate_m ch) \<noteq> 0"
  shows "(crystal_m c mod baud_divisor (baud_rate_m ch)) div baud_divisor (baud_rate_m ch) = 0 \<and>
         val_dec (crystal_m c) (baud_rate_m ch) = 0 \<and>
         \<not> (val_dec (crystal_m c) (baud_rate_m ch) > 0x0A) \<and>
         reduce_val_dec (val_dec (crystal_m c) (baud_rate_m ch)) = val_dec (crystal_m c) (baud_rate_m ch) \<and>
         (\<exists>c1. set_baudrate_m c ch = Some c1 \<and>
            journal (bus c1) = journal (bus c) @
              [WRITE_REGISTER (i2c_address (base_address_m c) (channel_m ch) 0) REG_WK2132_SPAGE [1],
               WRITE_REGISTER (i2c_address (base_address_m c) (channel_m ch) 0) REG_WK2132_BRH
                 [baud_high (val_int (crystal_m c) (baud_rate_m ch))],
               WRITE_REGISTER (i2c_address (base_address_m c) (channel_m ch) 0) REG_WK2132_BRL
                 [baud_low (val_int (crystal_m c) (baud_rate_m ch))],
               WRITE_REGISTER (i2c_address (base_address_m c) (channel_m ch) 0) REG_WK2132_BRD [0],
               WRITE_REGISTER (i2c_address (base_address_m c) (channel_m ch) 0) REG_WK2132_SPAGE [0]]) \<and>
         (\<exists>c1. wk2132_set_baudrate_m c ch = Some c1 \<and>
            journal (bus c1) = journal (bus c) @
              [WRITE_REGISTER (i2c_address (base_address_m c) (channel_m ch) 0) REG_WK2132_SPAGE [1],
               WRITE_REGISTER (i2c_address (base_address_m c) (channel_m ch) 0) REG_WK2132_BRH
                 [baud_high (val_int (crystal_m c) (baud_rate_m ch))],
               WRITE_REGISTER (i2c_address (base_address_m c) (channel_m ch) 0) REG_WK2132_BRL
                 [baud_low (val_int (crystal_m c) (baud_rate_m ch))],
               WRITE_REGISTER (i2c_address (base_address_m c) (channel_m ch) 0) REG_WK2132_BRD [0],
               WRITE_REGISTER (i2c_address (base_address_m c) (channel_m ch) 0) REG_WK2132_SPAGE [0]])"
proof -
  have pos: "0 < baud_divisor (baud_rate_m ch)"
    using assms by (simp add: word_greater_zero_iff)
  then have "crystal_m c mod baud_divisor (baud_rate_m ch) < baud_divisor (baud_rate_m ch)"
    by (rule word_mod_less_divisor)
  then have q: "(crystal_m c mod baud_divisor (baud_rate_m ch)) div baud_divisor (baud_rate_m ch) = 0"
    by (rule div_word_less)
  have z: "val_dec (crystal_m c) (baud_rate_m ch) = 0"
    using assms by (rule val_dec_zero)
  have r: "reduce_val_dec 0 = 0"
    by (subst reduce_val_dec.simps) simp
  show ?thesis
    using q set_baudrate_journal [OF assms, of c] wk2132_set_baudrate_journal [OF assms, of c]
    by (simp add: z r baud_dec_zero Let_def)
qed

theorem C5_witness:
  "baud_divisor (baud_rate_m channel_1) \<noteq> 0 \<and>
   crystal_m healthy_component = 14745600 \<and> baud_rate_m channel_1 = 9600 \<and>
   val_dec (crystal_m healthy_component) (baud_rate_m channel_1) = 0 \<and>
   \<not> (val_dec (crystal_m healthy_component) (baud_rate_m channel_1) > 0x0A)"
proof -
  have h: "baud_divisor (baud_rate_m channel_1) \<noteq> 0"
    by (simp add: baud_divisor_def channel_1_def example_channel_def)
  have c: "crystal_m healthy_component = 14745600"
    by (simp add: healthy_component_def example_component_def)
  have b: "baud_rate_m channel_1 = 9600"
    by (simp add: channel_1_def example_channel_def)
  note run = C5_fractional_baud_digit_is_zero [OF h, of healthy_component]
  show ?thesis
    using h c b run [THEN conjunct2, THEN conjunct1]
      run [THEN conjunct2, THEN conjunct2, THEN conjunct1]
    by (intro conjI)
qed

section \<open>Read-modify-write\<close>

lemma reg_and_assign_journal:
  "journal (bus (reg_and_assign r v c)) =
     journal (bus c) @
       [READ_REGISTER (i2c_address (base_address_m c) (reg_channel_m r) 0) (register_m r) 1,
        WRITE_REGISTER (i2c_address (base_address_m c) (reg_channel_m r) 0) (register_m r)
          [v AND bytes (respond (bus c) (length (journal (bus c)))) 0]]"
  by (simp add: reg_and_assign_def split_def Let_def reg_set_journal reg_get_journal reg_get_kept
      reg_get_value)

lemma reg_or_assign_journal:
  "journal (bus (reg_or_assign r v c)) =
     journal (bus c) @
       [READ_REGISTER (i2c_address (base_address_m c) (reg_channel_m r) 0) (register_m r) 1,
        WRITE_REGISTER (i2c_address (base_address_m c) (reg_channel_m r) 0) (register_m r)
          [v OR bytes (respond (bus c) (length (journal (bus c)))) 0]]"
  by (simp add: reg_or_assign_def split_def Let_def reg_set_journal reg_get_journal reg_get_kept
      reg_get_value)

lemma reg_rmw_warning:
  "status_warning (reg_and_assign r v c) =
     (error (respond (bus c) (length (journal (bus c)) + 1)) \<noteq> ERROR_OK)"
  "status_warning (reg_or_assign r v c) =
     (error (respond (bus c) (length (journal (bus c)) + 1)) \<noteq> ERROR_OK)"
  by (simp_all add: reg_and_assign_def reg_or_assign_def split_def Let_def reg_set_warning
      reg_get_journal reg_get_respond)

lemma reg_rmw_kept:
  "base_address_m (reg_and_assign r v c) = base_address_m c"
  "is_failed (reg_and_assign r v c) = is_failed c"
  "crystal_m (reg_and_assign r v c) = crystal_m c"
  "respond (bus (reg_and_assign r v c)) = respond (bus c)"
  "base_address_m (reg_or_assign r v c) = base_address_m c"
  "is_failed (reg_or_assign r v c) = is_failed c"
  "crystal_m (reg_or_assign r v c) = crystal_m c"
  "respond (bus (reg_or_assign r v c)) = respond (bus c)"
  by (simp_all add: reg_and_assign_def reg_or_assign_def split_def Let_def reg_set_kept
      reg_set_respond reg_get_kept reg_get_respond)

text \<open>
  Claim C3, as the code has it. \<^verbatim>\<open>operator&=\<close> and \<^verbatim>\<open>operator|=\<close> each issue one register
  read and then one register write of the operand combined with the byte that \<^verbatim>\<open>get\<close>
  returned, whatever the outcome of the read: the write is never skipped. They return
  no error; the warning status after the call is that of the write alone, and the failed
  state is untouched.
\<close>

theorem C3_read_modify_write_always_writes:
  "let a = i2c_address (base_address_m c) (reg_channel_m r) 0;
       got = bytes (respond (bus c) (length (journal (bus c)))) 0;
       write_reply = respond (bus c) (length (journal (bus c)) + 1)
   in journal (bus (reg_and_assign r v c)) =
        journal (bus c) @
          [READ_REGISTER a (register_m r) 1, WRITE_REGISTER a (register_m r) [v AND got]] \<and>
      journal (bus (reg_or_assign r v c)) =
        journal (bus c) @
          [READ_REGISTER a (register_m r) 1, WRITE_REGISTER a (register_m r) [v OR got]] \<and>
      status_warning (reg_and_assign r v c) = (error write_reply \<noteq> ERROR_OK) \<and>
      status_warning (reg_or_assign r v c) = (error write_reply \<noteq> ERROR_OK) \<and>
      is_failed (reg_and_assign r v c) = is_failed c \<and>
      is_failed (reg_or_assign r v c) = is_failed c"
  unfolding Let_def
  by (simp add: reg_and_assign_journal reg_or_assign_journal reg_rmw_warning reg_rmw_kept)

theorem C3_witness:
  "journal (bus (reg_and_assign lcr_of_channel_1 0xF0 unlucky_component)) =
     journal (bus unlucky_component) @
       [READ_REGISTER (i2c_address (base_address_m unlucky_component) (reg_channel_m lcr_of_channel_1) 0)
          (register_m lcr_of_channel_1) 1,
        WRITE_REGISTER (i2c_address (base_address_m unlucky_component) (reg_channel_m lcr_of_channel_1) 0)
          (register_m lcr_of_channel_1)
          [0xF0 AND bytes (respond (bus unlucky_component) (length (journal (bus unlucky_component)))) 0]]"
  using C3_read_modify_write_always_writes
    [where c = unlucky_component and r = lcr_of_channel_1 and v = "0xF0", unfolded Let_def]
  by (rule conjunct1)

text \<open>
  The claim as stated fails: the read of the line configuration register fails, the write
  is issued all the same, and since the write succeeds not even the warning status is left.
\<close>

theorem C3_counterexample:
  "error (respond (bus unlucky_component) (length (journal (bus unlucky_component)))) \<noteq> ERROR_OK \<and>
   journal (bus (reg_and_assign lcr_of_channel_1 0xF0 unlucky_component)) =
     [READ_REGISTER 0x12 0x05 1, WRITE_REGISTER 0x12 0x05 [0]] \<and>
   journal (bus (reg_or_assign lcr_of_channel_1 0x01 unlucky_component)) =
     [READ_REGISTER 0x12 0x05 1, WRITE_REGISTER 0x12 0x05 [1]] \<and>
   status_warning (reg_and_assign lcr_of_channel_1 0xF0 unlucky_component) = False \<and>
   status_warning (reg_or_assign lcr_of_channel_1 0x01 unlucky_component) = False"
proof -
  have a: "i2c_address (base_address_m unlucky_component) (reg_channel_m lcr_of_channel_1) 0 = 0x12"
    by (simp add: i2c_address_def unlucky_component_def example_component_def lcr_of_channel_1_def
        channel_reg_def channel_1_def example_channel_def)
  have r: "register_m lcr_of_channel_1 = 0x05"
    by (simp add: lcr_of_channel_1_def channel_reg_def REG_WK2132_LCR_def)
  have j: "journal (bus unlucky_component) = []"
    by (simp add: unlucky_component_def example_component_def)
  have f: "respond (bus unlucky_component) = answers_first_fails"
    by (simp add: unlucky_component_def example_component_def)
  show ?thesis
    by (simp add: reg_and_assign_journal reg_or_assign_journal reg_rmw_warning a r j f
        answers_first_fails_def reply_failed_def reply_ok_def)
qed

section \<open>Reading from the buffer\<close>

lemma pop_nonempty:
  assumes "0 < count_m rb" and "count_m rb < SIZE_T_MOD"
  shows "pop SIZE item rb =
     (True, rb_m rb ! tail_m rb,
      rb\<lparr>tail_m := (tail_m rb + 1) mod SIZE, count_m := count_m rb - 1\<rparr>)"
proof -
  have "size_t_dec (count_m rb) = count_m rb - 1"
    using assms by (rule size_t_dec_above)
  then show ?thesis
    using assms(1) by (simp add: pop_def is_empty_def)
qed

lemma front_index_after_pop:
  "front_index SIZE (rb\<lparr>tail_m := (tail_m rb + 1) mod SIZE, count_m := n\<rparr>) k =
   front_index SIZE rb (Suc k)"
  by (simp add: front_index_def mod_Suc_eq mod_add_left_eq)

lemma pop_loop_unfold:
  assumes "i < len" and "0 < count_m rb" and "count_m rb < SIZE_T_MOD"
  shows "pop_loop SIZE i len buffer rb =
     pop_loop SIZE (i + 1) len (buffer(i := rb_m rb ! tail_m rb))
       (rb\<lparr>tail_m := (tail_m rb + 1) mod SIZE, count_m := count_m rb - 1\<rparr>)"
  using assms(1) by (subst pop_loop.simps) (simp add: pop_nonempty [OF assms(2,3)])

lemma pop_loop_done: "\<not> i < len \<Longrightarrow> pop_loop SIZE i len buffer rb = (buffer, rb)"
  by (subst pop_loop.simps) simp

lemma pop_loop_result:
  "n = len - i \<Longrightarrow> i \<le> len \<Longrightarrow> len - i \<le> count_m rb \<Longrightarrow> count_m rb < SIZE_T_MOD \<Longrightarrow>
   fst (pop_loop SIZE i len buffer rb) =
     (\<lambda>j. if i \<le> j \<and> j < len then rb_m rb ! front_index SIZE rb (j - i) else buffer j) \<and>
   count_m (snd (pop_loop SIZE i len buffer rb)) = count_m rb - (len - i) \<and>
   rb_m (snd (pop_loop SIZE i len buffer rb)) = rb_m rb \<and>
   head_m (snd (pop_loop SIZE i len buffer rb)) = head_m rb"
proof (induction n arbitrary: i buffer rb)
  case 0
  then have "\<not> i < len" by simp
  then show ?case
    by (auto simp add: pop_loop_done fun_eq_iff)
next
  case (Suc n)
  let ?rb1 = "rb\<lparr>tail_m := (tail_m rb + 1) mod SIZE, count_m := count_m rb - 1\<rparr>"
  let ?b1 = "buffer(i := rb_m rb ! tail_m rb)"
  have lt: "i < len" and pos: "0 < count_m rb"
    using Suc.prems by simp_all
  have step: "pop_loop SIZE i len buffer rb = pop_loop SIZE (i + 1) len ?b1 ?rb1"
    using lt pos Suc.prems(4) by (rule pop_loop_unfold)
  have ih: "fst (pop_loop SIZE (i + 1) len ?b1 ?rb1) =
       (\<lambda>j. if i + 1 \<le> j \<and> j < len then rb_m ?rb1 ! front_index SIZE ?rb1 (j - (i + 1)) else ?b1 j) \<and>
     count_m (snd (pop_loop SIZE (i + 1) len ?b1 ?rb1)) = count_m ?rb1 - (len - (i + 1)) \<and>
     rb_m (snd (pop_loop SIZE (i + 1) len ?b1 ?rb1)) = rb_m ?rb1 \<and>
     head_m (snd (pop_loop SIZE (i + 1) len ?b1 ?rb1)) = head_m ?rb1"
    using Suc.prems by (intro Suc.IH) simp_all
  have f: "fst (pop_loop SIZE (i + 1) len ?b1 ?rb1) =
       (\<lambda>j. if i \<le> j \<and> j < len then rb_m rb ! front_index SIZE rb (j - i) else buffer j)"
  proof
    fix j
    show "fst (pop_loop SIZE (i + 1) len ?b1 ?rb1) j =
       (if i \<le> j \<and> j < len then rb_m rb ! front_index SIZE rb (j - i) else buffer j)"
    proof (cases "i + 1 \<le> j \<and> j < len")
      case True
      then have eq: "Suc (j - (i + 1)) = j - i" by arith
      have "front_index SIZE ?rb1 (j - (i + 1)) = front_index SIZE rb (Suc (j - (i + 1)))"
        by (rule front_index_after_pop)
      then have "front_index SIZE ?rb1 (j - (i + 1)) = front_index SIZE rb (j - i)"
        by (simp only: eq)
      then show ?thesis
        using True ih [THEN conjunct1] by simp
    next
      case False
      then show ?thesis
        using lt ih [THEN conjunct1] by (auto simp add: front_index_def)
    qed
  qed
  have "Suc (len - Suc i) = len - i"
    using lt by arith
  then show ?case
    unfolding step using f ih [THEN conjunct2] by simp
qed

lemma read_array_short:
  assumes "count_m (receive_buffer_m ch) < len" and "count_m (receive_buffer_m ch) < SIZE_T_MOD"
  shows "fst (read_array X buffer len ch) = False"
    and "fst (snd (read_array X buffer len ch)) =
      fst (pop_loop X 0 (count_m (receive_buffer_m ch)) buffer (receive_buffer_m ch))"
    and "snd (snd (read_array X buffer len ch)) =
      ch\<lparr>receive_buffer_m :=
           snd (pop_loop X 0 (count_m (receive_buffer_m ch)) buffer (receive_buffer_m ch))\<rparr>"
  using assms(1) by (simp_all add: read_array_def count_def split_def Let_def)

text \<open>
  Claim C6. When the requested length exceeds the count of the receive buffer (a buffer
  within its capacity), \<^verbatim>\<open>read_array\<close> returns false; the first \<^verbatim>\<open>count()\<close> positions of
  the caller's buffer receive the items of the ring buffer, oldest first, and every other
  position keeps its content; the ring buffer ends empty, and nothing was pushed into it:
  its array and \<^verbatim>\<open>head_\<close> are unchanged. \<^verbatim>\<open>read_array\<close> has no access to the component, so
  it issues no bus transaction.
\<close>

theorem C6_short_read_copies_what_is_there:
  assumes "count (receive_buffer_m ch) < len"
    and "count (receive_buffer_m ch) \<le> XFER_MAX_SIZE" and "XFER_MAX_SIZE < SIZE_T_MOD"
  shows "let rb0 = receive_buffer_m ch;
             (status, buffer1, ch1) = read_array XFER_MAX_SIZE buffer len ch
         in status = False \<and>
            (\<forall>i < count rb0. buffer1 i = rb_m rb0 ! front_index XFER_MAX_SIZE rb0 i) \<and>
            (\<forall>i \<ge> count rb0. buffer1 i = buffer i) \<and>
            count (receive_buffer_m ch1) = 0 \<and> is_empty (receive_buffer_m ch1) \<and>
            rb_m (receive_buffer_m ch1) = rb_m rb0 \<and> head_m (receive_buffer_m ch1) = head_m rb0"
proof -
  let ?rb = "receive_buffer_m ch"
  have h1: "count_m ?rb < len"
    using assms(1) by (simp add: count_def)
  have h2: "count_m ?rb < SIZE_T_MOD"
    using assms(2,3) unfolding count_def by (rule le_less_trans)
  have loop: "fst (pop_loop XFER_MAX_SIZE 0 (count_m ?rb) buffer ?rb) =
       (\<lambda>j. if 0 \<le> j \<and> j < count_m ?rb then rb_m ?rb ! front_index XFER_MAX_SIZE ?rb (j - 0)
             else buffer j) \<and>
     count_m (snd (pop_loop XFER_MAX_SIZE 0 (count_m ?rb) buffer ?rb)) = count_m ?rb - (count_m ?rb - 0) \<and>
     rb_m (snd (pop_loop XFER_MAX_SIZE 0 (count_m ?rb) buffer ?rb)) = rb_m ?rb \<and>
     head_m (snd (pop_loop XFER_MAX_SIZE 0 (count_m ?rb) buffer ?rb)) = head_m ?rb"
    using h2 by (intro pop_loop_result [OF refl]) simp_all
  show ?thesis
    unfolding Let_def split_def
    by (simp add: read_array_short [OF h1 h2] loop count_def is_empty_def)
qed

theorem C6_witness:
  "count (receive_buffer_m (example_channel 0 buffer_5_of_8)) < 10 \<and>
   count (receive_buffer_m (example_channel 0 buffer_5_of_8)) = 5 \<and>
   (5 :: nat) \<le> 8 \<and> 8 < SIZE_T_MOD \<and>
   fst (read_array 8 (\<lambda>i. 0) 10 (example_channel 0 buffer_5_of_8)) = False \<and>
   map (fst (snd (read_array 8 (\<lambda>i. 0) 10 (example_channel 0 buffer_5_of_8)))) [0, 1, 2, 3, 4, 5, 9] =
     [16, 17, 10, 11, 12, 0, 0] \<and>
   count (receive_buffer_m (snd (snd (read_array 8 (\<lambda>i. 0) 10 (example_channel 0 buffer_5_of_8))))) = 0"
proof -
  let ?ch = "example_channel 0 buffer_5_of_8"
  have c: "count (receive_buffer_m ?ch) = 5"
    by (simp add: count_def example_channel_def buffer_5_of_8_def)
  have h1: "count (receive_buffer_m ?ch) < 10"
    by (simp add: c)
  have h2: "count (receive_buffer_m ?ch) \<le> 8"
    by (simp add: c)
  have h3: "8 < SIZE_T_MOD"
    by (simp add: SIZE_T_MOD_def)
  have r: "receive_buffer_m ?ch = buffer_5_of_8"
    by (simp add: example_channel_def)
  note run = C6_short_read_copies_what_is_there
    [OF h1 h2 h3, of "\<lambda>i. 0", unfolded Let_def split_def c]
  have s: "fst (read_array 8 (\<lambda>i. 0) 10 ?ch) = False"
    using run by (rule conjunct1)
  have lo: "\<forall>i<5. fst (snd (read_array 8 (\<lambda>i. 0) 10 ?ch)) i =
      rb_m (receive_buffer_m ?ch) ! front_index 8 (receive_buffer_m ?ch) i"
    using run [THEN conjunct2, THEN conjunct1] .
  have hi: "\<forall>i\<ge>5. fst (snd (read_array 8 (\<lambda>i. 0) 10 ?ch)) i = 0"
    using run [THEN conjunct2, THEN conjunct2, THEN conjunct1] .
  have e: "count (receive_buffer_m (snd (snd (read_array 8 (\<lambda>i. 0) 10 ?ch)))) = 0"
    using run [THEN conjunct2, THEN conjunct2, THEN conjunct2, THEN conjunct1] .
  have v: "rb_m buffer_5_of_8 ! front_index 8 buffer_5_of_8 0 = 16"
    "rb_m buffer_5_of_8 ! front_index 8 buffer_5_of_8 (Suc 0) = 17"
    "rb_m buffer_5_of_8 ! front_index 8 buffer_5_of_8 2 = 10"
    "rb_m buffer_5_of_8 ! front_index 8 buffer_5_of_8 3 = 11"
    "rb_m buffer_5_of_8 ! front_index 8 buffer_5_of_8 4 = 12"
    by (simp_all add: front_index_def buffer_5_of_8_def)
  have m: "map (fst (snd (read_array 8 (\<lambda>i. 0) 10 ?ch))) [0, 1, 2, 3, 4, 5, 9] =
     [16, 17, 10, 11, 12, 0, 0]"
    using lo [unfolded r] hi by (simp add: v)
  show ?thesis
    using c h1 h3 s m e by simp
qed

section \<open>Setup\<close>

lemma reg_set_addresses:
  "bus_addresses (reg_set r v c) =
     bus_addresses c @ [i2c_address (base_address_m c) (reg_channel_m r) 0]"
  by (simp add: bus_addresses_def reg_set_journal)

lemma reg_rmw_addresses:
  "bus_addresses (reg_and_assign r v c) =
     bus_addresses c @ replicate 2 (i2c_address (base_address_m c) (reg_channel_m r) 0)"
  "bus_addresses (reg_or_assign r v c) =
     bus_addresses c @ replicate 2 (i2c_address (base_address_m c) (reg_channel_m r) 0)"
  by (simp_all add: bus_addresses_def reg_and_assign_journal reg_or_assign_journal
      numeral_2_eq_2)

lemma reg_get_addresses:
  "bus_addresses (snd (reg_get r c)) =
     bus_addresses c @ [i2c_address (base_address_m c) (reg_channel_m r) 0]"
  by (simp add: bus_addresses_def reg_get_journal)

lemma set_line_param_channel: "snd (set_line_param_m verbose c ch) = ch\<lparr>data_bits_m := 8\<rparr>"
  by (simp add: set_line_param_m_def Let_def)

lemma set_line_param_kept:
  "base_address_m (fst (set_line_param_m verbose c ch)) = base_address_m c"
  "is_failed (fst (set_line_param_m verbose c ch)) = is_failed c"
  by (simp_all add: set_line_param_m_def Let_def reg_rmw_kept reg_get_kept
      split: UARTParityOptions.split)

lemma set_line_param_quiet_addresses:
  "bus_addresses (fst (set_line_param_m False c ch)) =
     bus_addresses c @
       replicate (2 + (if stop_bits_m ch = 2 then 2 else 0)
                    + (case parity_m ch of UART_CONFIG_PARITY_NONE \<Rightarrow> 0 | _ \<Rightarrow> 2))
         (i2c_address (base_address_m c) (channel_m ch) 0)"
  by (simp add: set_line_param_m_def Let_def reg_rmw_addresses reg_rmw_kept channel_reg_def
      replicate_add [symmetric] del: replicate_add replicate_Suc
      split: UARTParityOptions.split)

lemma set_line_param_verbose:
  "fst (set_line_param_m True c ch) =
     snd (reg_get (channel_reg ch REG_WK2132_LCR) (fst (set_line_param_m False c ch)))"
  by (simp add: set_line_param_m_def Let_def channel_reg_def)

lemma set_line_param_addresses:
  "bus_addresses (fst (set_line_param_m verbose c ch)) =
     bus_addresses c @
       replicate (2 + (if stop_bits_m ch = 2 then 2 else 0)
                    + (case parity_m ch of UART_CONFIG_PARITY_NONE \<Rightarrow> 0 | _ \<Rightarrow> 2)
                    + (if verbose then 1 else 0))
         (i2c_address (base_address_m c) (channel_m ch) 0)"
proof (cases verbose)
  case False
  then show ?thesis
    by (simp add: set_line_param_quiet_addresses)
next
  case True
  let ?n = "2 + (if stop_bits_m ch = 2 then 2 else 0)
              + (case parity_m ch of UART_CONFIG_PARITY_NONE \<Rightarrow> 0 | _ \<Rightarrow> 2)"
  let ?a = "i2c_address (base_address_m c) (channel_m ch) 0"
  have "bus_addresses (fst (set_line_param_m True c ch)) =
      (bus_addresses c @ replicate ?n ?a) @ [?a]"
    unfolding set_line_param_verbose reg_get_addresses set_line_param_quiet_addresses
    by (simp add: set_line_param_kept channel_reg_def)
  also have "\<dots> = bus_addresses c @ replicate (?n + 1) ?a"
    unfolding append_assoc replicate_add by simp
  finally show ?thesis
    using True by simp
qed

lemma set_baudrate_addresses:
  assumes "baud_divisor (baud_rate_m ch) \<noteq> 0"
  shows "\<exists>c1. set_baudrate_m c ch = Some c1 \<and>
           bus_addresses c1 =
             bus_addresses c @ replicate 5 (i2c_address (base_address_m c) (channel_m ch) 0) \<and>
           base_address_m c1 = base_address_m c \<and> is_failed c1 = is_failed c"
proof -
  from set_baudrate_journal [OF assms, of c] obtain c1 where
    c1: "set_baudrate_m c ch = Some c1" and
    j: "journal (bus c1) = journal (bus c) @
       (let a = i2c_address (base_address_m c) (channel_m ch) 0;
            vi = val_int (crystal_m c) (baud_rate_m ch);
            vd = val_dec (crystal_m c) (baud_rate_m ch)
        in [WRITE_REGISTER a REG_WK2132_SPAGE [1],
            WRITE_REGISTER a REG_WK2132_BRH [baud_high vi],
            WRITE_REGISTER a REG_WK2132_BRL [baud_low vi],
            WRITE_REGISTER a REG_WK2132_BRD [baud_dec vd],
            WRITE_REGISTER a REG_WK2132_SPAGE [0]])"
    by blast
  have k: "base_address_m c1 = base_address_m c \<and> is_failed c1 = is_failed c"
    using c1 assms
    by (auto simp add: set_baudrate_m_def Let_def switch_page_kept reg_assign_def reg_set_kept)
  have "bus_addresses c1 =
      bus_addresses c @ replicate 5 (i2c_address (base_address_m c) (channel_m ch) 0)"
    by (simp add: bus_addresses_def j Let_def eval_nat_numeral)
  then show ?thesis
    using c1 k by simp
qed

lemma setup_channel_result:
  assumes "baud_divisor (baud_rate_m ch) \<noteq> 0"
  shows "\<exists>c1. setup_channel_m verbose c ch = Some (c1, channel_after_setup ch) \<and>
           bus_addresses c1 =
             bus_addresses c @ setup_channel_addresses verbose (base_address_m c) ch \<and>
           base_address_m c1 = base_address_m c \<and> is_failed c1 = is_failed c"
proof -
  let ?a = "i2c_address (base_address_m c) (channel_m ch) 0"
  let ?c1 = "reg_assign (channel_reg ch REG_WK2132_SCR) (SCR_RXEN OR SCR_TXEN) c"
  let ?c2 = "reset_fifo_m ?c1 ch"
  let ?ch1 = "ch\<lparr>receive_buffer_m := clear (receive_buffer_m ch)\<rparr>"
  let ?c3 = "fst (set_line_param_m verbose ?c2 ?ch1)"
  let ?ch2 = "snd (set_line_param_m verbose ?c2 ?ch1)"
  have ch2: "?ch2 = channel_after_setup ch"
    by (simp add: set_line_param_channel channel_after_setup_def)
  have c2: "bus_addresses ?c2 = bus_addresses c @ replicate 2 ?a"
    "base_address_m ?c2 = base_address_m c" "is_failed ?c2 = is_failed c"
    by (simp_all add: reset_fifo_m_def reg_assign_def reg_set_addresses reg_set_kept channel_reg_def
        numeral_2_eq_2)
  have c3: "bus_addresses ?c3 = bus_addresses c @ replicate 2 ?a @
       replicate (2 + (if stop_bits_m ch = 2 then 2 else 0)
                    + (case parity_m ch of UART_CONFIG_PARITY_NONE \<Rightarrow> 0 | _ \<Rightarrow> 2)
                    + (if verbose then 1 else 0)) ?a"
    "base_address_m ?c3 = base_address_m c" "is_failed ?c3 = is_failed c"
    by (simp_all add: set_line_param_addresses set_line_param_kept c2)
  have nz: "baud_divisor (baud_rate_m ?ch2) \<noteq> 0"
    using assms by (simp add: ch2 channel_after_setup_def)
  from set_baudrate_addresses [OF nz, where c = ?c3] obtain c4 where
    c4: "set_baudrate_m ?c3 ?ch2 = Some c4" and
    a4: "bus_addresses c4 =
           bus_addresses ?c3 @ replicate 5 (i2c_address (base_address_m ?c3) (channel_m ?ch2) 0)" and
    k4: "base_address_m c4 = base_address_m ?c3" "is_failed c4 = is_failed ?c3"
    by blast
  have chan: "channel_m ?ch2 = channel_m ch"
    by (simp add: ch2 channel_after_setup_def)
  have r: "setup_channel_m verbose c ch = Some (c4, channel_after_setup ch)"
    using c4 by (simp add: setup_channel_m_def Let_def split_def ch2)
  have "bus_addresses c4 = bus_addresses c @ setup_channel_addresses verbose (base_address_m c) ch"
    unfolding a4 c3 chan setup_channel_addresses_def setup_channel_transactions_def
    by (simp only: replicate_add [symmetric] append_assoc) (simp add: add.commute add.left_commute)
  then show ?thesis
    using r k4 c3(2,3) by simp
qed

lemma setup_children_result:
  "\<forall>ch \<in> set children. baud_divisor (baud_rate_m ch) \<noteq> 0 \<Longrightarrow>
   \<exists>c1. setup_children verbose c children = Some (c1, map channel_after_setup children) \<and>
        bus_addresses c1 =
          bus_addresses c @
            concat (map (setup_channel_addresses verbose (base_address_m c)) children) \<and>
        base_address_m c1 = base_address_m c \<and> is_failed c1 = is_failed c"
proof (induction children arbitrary: c)
  case Nil
  show ?case by simp
next
  case (Cons child rest)
  have nz: "baud_divisor (baud_rate_m child) \<noteq> 0"
    using Cons.prems by simp
  from setup_channel_result [OF nz, where c = c and verbose = verbose] obtain c1 where
    c1: "setup_channel_m verbose c child = Some (c1, channel_after_setup child)" and
    a1: "bus_addresses c1 =
           bus_addresses c @ setup_channel_addresses verbose (base_address_m c) child" and
    k1: "base_address_m c1 = base_address_m c" "is_failed c1 = is_failed c"
    by blast
  have "\<forall>ch \<in> set rest. baud_divisor (baud_rate_m ch) \<noteq> 0"
    using Cons.prems by simp
  from Cons.IH [OF this, of c1] obtain c2 where
    c2: "setup_children verbose c1 rest = Some (c2, map channel_after_setup rest)" and
    a2: "bus_addresses c2 =
          bus_addresses c1 @
            concat (map (setup_channel_addresses verbose (base_address_m c1)) rest)" and
    k2: "base_address_m c2 = base_address_m c1" "is_failed c2 = is_failed c1"
    by blast
  show ?case
    using c1 c2 by (simp add: a1 a2 k1 k2)
qed

subsection \<open>Namespace \<^verbatim>\<open>wk2132\<close>\<close>

lemma bus_addresses_update [simp]:
  "bus_addresses (c\<lparr>page1_m := p\<rparr>) = bus_addresses c"
  "bus_addresses (c\<lparr>data_m := d\<rparr>) = bus_addresses c"
  "bus_addresses (c\<lparr>base_address_m := a\<rparr>) = bus_addresses c"
  by (simp_all add: bus_addresses_def)

lemma write_wk2132_register_addresses:
  "bus_addresses (write_wk2132_register_m reg channel buffer len c) =
     bus_addresses c @ [i2c_address (base_address_m c) channel 0]"
  by (simp add: bus_addresses_def write_wk2132_register_journal)

lemma read_wk2132_register_journal:
  "journal (bus (snd (snd (read_wk2132_register_m reg channel len c)))) =
     journal (bus c) @ [READ_REGISTER (i2c_address (base_address_m c) channel 0) reg len]"
  by (simp add: read_wk2132_register_m_def read_register_def transact_def split_def Let_def)

lemma read_wk2132_register_addresses:
  "bus_addresses (snd (snd (read_wk2132_register_m reg channel len c))) =
     bus_addresses c @ [i2c_address (base_address_m c) channel 0]"
  by (simp add: bus_addresses_def read_wk2132_register_journal)

lemma read_wk2132_register_kept:
  "base_address_m (snd (snd (read_wk2132_register_m reg channel len c))) = base_address_m c"
  "is_failed (snd (snd (read_wk2132_register_m reg channel len c))) = is_failed c"
  by (simp_all add: read_wk2132_register_m_def read_register_def transact_def split_def Let_def)

lemma wk2132_set_line_param_result:
  "snd (wk2132_set_line_param_m c ch) = wk2132_channel_after_setup ch"
  "bus_addresses (fst (wk2132_set_line_param_m c ch)) =
     bus_addresses c @ replicate 2 (i2c_address (base_address_m c) (channel_m ch) 0)"
  "base_address_m (fst (wk2132_set_line_param_m c ch)) = base_address_m c"
  "is_failed (fst (wk2132_set_line_param_m c ch)) = is_failed c"
  by (simp_all add: wk2132_set_line_param_m_def wk2132_channel_after_setup_def split_def Let_def
      write_wk2132_register_addresses write_wk2132_register_kept
      read_wk2132_register_addresses read_wk2132_register_kept numeral_2_eq_2)

lemma wk2132_set_baudrate_addresses:
  assumes "baud_divisor (baud_rate_m ch) \<noteq> 0"
  shows "\<exists>c1. wk2132_set_baudrate_m c ch = Some c1 \<and>
           bus_addresses c1 =
             bus_addresses c @ replicate 5 (i2c_address (base_address_m c) (channel_m ch) 0) \<and>
           base_address_m c1 = base_address_m c \<and> is_failed c1 = is_failed c"
  using assms
  by (simp add: wk2132_set_baudrate_m_def Let_def write_wk2132_register_addresses
      write_wk2132_register_kept eval_nat_numeral)

lemma wk2132_setup_channel_result:
  assumes "baud_divisor (baud_rate_m ch) \<noteq> 0"
  shows "\<exists>c1. wk2132_setup_channel_m c ch = Some (c1, wk2132_channel_after_setup ch) \<and>
           bus_addresses c1 =
             bus_addresses c @ wk2132_setup_channel_addresses (base_address_m c) ch \<and>
           base_address_m c1 = base_address_m c \<and> is_failed c1 = is_failed c"
proof -
  let ?g = "i2c_address (base_address_m c) 0 0"
  let ?a = "i2c_address (base_address_m c) (channel_m ch) 0"
  let ?c1 = "snd (snd (read_wk2132_register_m REG_WK2132_GENA 0 1 c))"
  let ?gena = "fst (snd (read_wk2132_register_m REG_WK2132_GENA 0 1 c)) 0"
  let ?c2 = "write_wk2132_register_m REG_WK2132_GENA 0
               [if channel_m ch = 0 then ?gena OR 0x01 else ?gena OR 0x02] 1 ?c1"
  let ?c3 = "snd (snd (read_wk2132_register_m REG_WK2132_GRST 0 1 ?c2))"
  let ?c4 = "write_wk2132_register_m REG_WK2132_GRST 0
               [if channel_m ch = 0 then 0 OR 0x01 else 0 OR 0x02] 1 ?c3"
  let ?c6 = "write_wk2132_register_m REG_WK2132_SPAGE (channel_m ch) [0] 1 (?c4\<lparr>page1_m := False\<rparr>)"
  let ?c7 = "write_wk2132_register_m REG_WK2132_FCR (channel_m ch) [0x0F] 1 ?c6"
  let ?c8 = "write_wk2132_register_m REG_WK2132_SCR (channel_m ch) [0x3] 1 ?c7"
  have c4: "bus_addresses ?c4 = bus_addresses c @ replicate 4 ?g"
    "base_address_m ?c4 = base_address_m c" "is_failed ?c4 = is_failed c"
    by (simp_all add: write_wk2132_register_addresses write_wk2132_register_kept
        read_wk2132_register_addresses read_wk2132_register_kept eval_nat_numeral)
  have c8: "bus_addresses ?c8 = bus_addresses c @ replicate 4 ?g @ replicate 3 ?a"
    "base_address_m ?c8 = base_address_m c" "is_failed ?c8 = is_failed c"
    by (simp_all add: write_wk2132_register_addresses write_wk2132_register_kept
        read_wk2132_register_addresses read_wk2132_register_kept eval_nat_numeral)
  from wk2132_set_baudrate_addresses [OF assms, of ?c8] obtain c9 where
    c9: "wk2132_set_baudrate_m ?c8 ch = Some c9" and
    a9: "bus_addresses c9 =
           bus_addresses ?c8 @ replicate 5 (i2c_address (base_address_m ?c8) (channel_m ch) 0)" and
    k9: "base_address_m c9 = base_address_m ?c8" "is_failed c9 = is_failed ?c8"
    by blast
  let ?c10 = "fst (wk2132_set_line_param_m c9 ch)"
  have r: "wk2132_setup_channel_m c ch = Some (?c10, wk2132_channel_after_setup ch)"
    unfolding wk2132_setup_channel_m_def Let_def split_def c9
    by (simp add: prod_eq_iff wk2132_set_line_param_result(1))
  have "bus_addresses ?c10 = bus_addresses c @ replicate 4 ?g @ replicate 3 ?a @ replicate 5 ?a @ replicate 2 ?a"
    using a9 k9 c8 by (simp add: wk2132_set_line_param_result)
  also have "replicate 3 ?a @ replicate 5 ?a @ replicate 2 ?a = replicate 10 ?a"
    by (simp only: replicate_add [symmetric]) simp
  finally have "bus_addresses ?c10 = bus_addresses c @ wk2132_setup_channel_addresses (base_address_m c) ch"
    by (simp add: wk2132_setup_channel_addresses_def)
  then show ?thesis
    using r k9 c8 by (simp add: wk2132_set_line_param_result)
qed

lemma wk2132_setup_children_result:
  "\<forall>ch \<in> set children. baud_divisor (baud_rate_m ch) \<noteq> 0 \<Longrightarrow>
   \<exists>c1. wk2132_setup_children c children = Some (c1, map wk2132_channel_after_setup children) \<and>
        bus_addresses c1 =
          bus_addresses c @ concat (map (wk2132_setup_channel_addresses (base_address_m c)) children) \<and>
        base_address_m c1 = base_address_m c \<and> is_failed c1 = is_failed c"
proof (induction children arbitrary: c)
  case Nil
  show ?case by simp
next
  case (Cons child rest)
  have nz: "baud_divisor (baud_rate_m child) \<noteq> 0"
    using Cons.prems by simp
  from wk2132_setup_channel_result [OF nz, of c] obtain c1 where
    c1: "wk2132_setup_channel_m c child = Some (c1, wk2132_channel_after_setup child)" and
    a1: "bus_addresses c1 = bus_addresses c @ wk2132_setup_channel_addresses (base_address_m c) child" and
    k1: "base_address_m c1 = base_address_m c" "is_failed c1 = is_failed c"
    by blast
  have "\<forall>ch \<in> set rest. baud_divisor (baud_rate_m ch) \<noteq> 0"
    using Cons.prems by simp
  from Cons.IH [OF this, of c1] obtain c2 where
    c2: "wk2132_setup_children c1 rest = Some (c2, map wk2132_channel_after_setup rest)" and
    a2: "bus_addresses c2 =
          bus_addresses c1 @ concat (map (wk2132_setup_channel_addresses (base_address_m c1)) rest)" and
    k2: "base_address_m c2 = base_address_m c1" "is_failed c2 = is_failed c1"
    by blast
  show ?case
    using c1 c2 by (simp add: a1 a2 k1 k2)
qed

subsection \<open>The two setups\<close>

lemma component_setup_result:
  assumes "\<forall>ch \<in> set children. baud_divisor (baud_rate_m ch) \<noteq> 0"
  shows "\<exists>c1. component_setup verbose c children = Some (c1, map channel_after_setup children) \<and>
           is_failed c1 = is_failed c \<and>
           bus_addresses c1 =
             bus_addresses c @ replicate 3 (i2c_address (address_m c) 0 0) @
               concat (map (setup_channel_addresses verbose (address_m c)) children)"
proof -
  let ?g = "i2c_address (address_m c) 0 0"
  let ?c0 = "c\<lparr>base_address_m := address_m c\<rparr>"
  let ?c1 = "reg_assign (component_reg REG_WK2132_GENA) (GENA_C1EN OR GENA_C2EN) ?c0"
  let ?c2 = "reg_assign (component_reg REG_WK2132_GRST) (GRST_C1RST OR GRST_C2RST) ?c1"
  let ?c3 = "reg_assign (component_reg REG_WK2132_SPAGE) 0 ?c2"
  let ?c4 = "?c3\<lparr>page1_m := False\<rparr>"
  have k: "base_address_m ?c4 = address_m c" "is_failed ?c4 = is_failed c"
    by (simp_all add: reg_assign_def reg_set_kept)
  have a: "bus_addresses ?c4 = bus_addresses c @ replicate 3 ?g"
    by (simp add: reg_assign_def reg_set_addresses reg_set_kept component_reg_def eval_nat_numeral)
  from setup_children_result [OF assms, where c = ?c4 and verbose = verbose] obtain c5 where
    c5: "setup_children verbose ?c4 children = Some (c5, map channel_after_setup children)" and
    a5: "bus_addresses c5 =
           bus_addresses ?c4 @
             concat (map (setup_channel_addresses verbose (base_address_m ?c4)) children)" and
    k5: "is_failed c5 = is_failed ?c4"
    by blast
  have r: "component_setup verbose c children = Some (c5, map channel_after_setup children)"
    using c5 by (simp add: component_setup_def Let_def)
  show ?thesis
    using r a5 k5 a k by simp
qed

lemma component_setup_prologue:
  "\<exists>c4. journal (bus c4) = journal (bus c) @
           [WRITE_REGISTER (i2c_address (address_m c) 0 0) REG_WK2132_GENA [GENA_C1EN OR GENA_C2EN],
            WRITE_REGISTER (i2c_address (address_m c) 0 0) REG_WK2132_GRST [GRST_C1RST OR GRST_C2RST],
            WRITE_REGISTER (i2c_address (address_m c) 0 0) REG_WK2132_SPAGE [0]] \<and>
         component_setup verbose c children = setup_children verbose c4 children"
proof -
  let ?c0 = "c\<lparr>base_address_m := address_m c\<rparr>"
  let ?c1 = "reg_assign (component_reg REG_WK2132_GENA) (GENA_C1EN OR GENA_C2EN) ?c0"
  let ?c2 = "reg_assign (component_reg REG_WK2132_GRST) (GRST_C1RST OR GRST_C2RST) ?c1"
  let ?c3 = "reg_assign (component_reg REG_WK2132_SPAGE) 0 ?c2"
  let ?c4 = "?c3\<lparr>page1_m := False\<rparr>"
  have "journal (bus ?c4) = journal (bus c) @
      [WRITE_REGISTER (i2c_address (address_m c) 0 0) REG_WK2132_GENA [GENA_C1EN OR GENA_C2EN],
       WRITE_REGISTER (i2c_address (address_m c) 0 0) REG_WK2132_GRST [GRST_C1RST OR GRST_C2RST],
       WRITE_REGISTER (i2c_address (address_m c) 0 0) REG_WK2132_SPAGE [0]]"
    by (simp add: reg_assign_def reg_set_journal reg_set_kept component_reg_def)
  moreover have "component_setup verbose c children = setup_children verbose ?c4 children"
    by (simp add: component_setup_def Let_def)
  ultimately show ?thesis
    by blast
qed

lemma wk2132_component_setup_result:
  assumes "\<forall>ch \<in> set children. baud_divisor (baud_rate_m ch) \<noteq> 0"
  shows "\<exists>c1. wk2132_component_setup c children =
                Some (c1, map wk2132_channel_after_setup children) \<and>
           is_failed c1 = is_failed c \<and>
           bus_addresses c1 =
             bus_addresses c @ [i2c_address (address_m c) 0 0] @
               concat (map (wk2132_setup_channel_addresses (address_m c)) children)"
proof -
  let ?c0 = "c\<lparr>base_address_m := address_m c\<rparr>"
  let ?r = "read_wk2132_register_m REG_WK2132_GENA 0 1 ?c0"
  let ?c2 = "(snd (snd ?r))\<lparr>data_m := fst (snd ?r) 0\<rparr>"
  have k: "base_address_m ?c2 = address_m c" "is_failed ?c2 = is_failed c"
    by (simp_all add: read_wk2132_register_kept)
  have a: "bus_addresses ?c2 = bus_addresses c @ [i2c_address (address_m c) 0 0]"
    by (simp add: read_wk2132_register_addresses)
  from wk2132_setup_children_result [OF assms, of ?c2] obtain c3 where
    c3: "wk2132_setup_children ?c2 children = Some (c3, map wk2132_channel_after_setup children)" and
    a3: "bus_addresses c3 =
           bus_addresses ?c2 @
             concat (map (wk2132_setup_channel_addresses (base_address_m ?c2)) children)" and
    k3: "is_failed c3 = is_failed ?c2"
    by blast
  have r: "wk2132_component_setup c children = Some (c3, map wk2132_channel_after_setup children)"
    using c3 by (simp add: wk2132_component_setup_def Let_def split_def)
  show ?thesis
    using r a3 k3 a k by simp
qed

lemma wk2132_component_setup_prologue:
  "\<exists>c2. journal (bus c2) = journal (bus c) @
           [READ_REGISTER (i2c_address (address_m c) 0 0) REG_WK2132_GENA 1] \<and>
         wk2132_component_setup c children = wk2132_setup_children c2 children"
proof -
  let ?c0 = "c\<lparr>base_address_m := address_m c\<rparr>"
  let ?r = "read_wk2132_register_m REG_WK2132_GENA 0 1 ?c0"
  let ?c2 = "(snd (snd ?r))\<lparr>data_m := fst (snd ?r) 0\<rparr>"
  have "journal (bus ?c2) = journal (bus c) @
      [READ_REGISTER (i2c_address (address_m c) 0 0) REG_WK2132_GENA 1]"
    by (simp add: read_wk2132_register_journal)
  moreover have "wk2132_component_setup c children = wk2132_setup_children ?c2 children"
    by (simp add: wk2132_component_setup_def Let_def split_def)
  ultimately show ?thesis
    by blast
qed

text \<open>
  Claim C4, as the code has it, for channels whose baud-rate divisor \<^verbatim>\<open>baud_rate_ * 16\<close> is
  not zero. \<^verbatim>\<open>setup\<close> of namespace \<^verbatim>\<open>wk2132_i2c\<close> makes no probe: it writes the global
  enable, global reset and page-select registers and then runs the loop over the children;
  whatever the bus answers, and in a verbose build or not, it returns with every channel
  set up, leaves the failed state of the component as it was, and the transactions of the
  channels follow the three global writes in the order of \<^verbatim>\<open>children_\<close>, the order in
  which the channels were registered, whatever their channel numbers are. \<^verbatim>\<open>setup\<close> of
  namespace \<^verbatim>\<open>wk2132\<close> first reads the global enable register; when that read succeeds,
  every channel is set up, in the order of \<^verbatim>\<open>children_\<close>.
\<close>

theorem C4_setup_sets_up_every_channel_in_order:
  assumes "\<forall>ch \<in> set children. baud_divisor (baud_rate_m ch) \<noteq> 0"
  shows "(\<exists>c0. journal (bus c0) = journal (bus c) @
              [WRITE_REGISTER (i2c_address (address_m c) 0 0) REG_WK2132_GENA [GENA_C1EN OR GENA_C2EN],
               WRITE_REGISTER (i2c_address (address_m c) 0 0) REG_WK2132_GRST [GRST_C1RST OR GRST_C2RST],
               WRITE_REGISTER (i2c_address (address_m c) 0 0) REG_WK2132_SPAGE [0]] \<and>
            component_setup verbose c children = setup_children verbose c0 children) \<and>
         (\<exists>c1. component_setup verbose c children = Some (c1, map channel_after_setup children) \<and>
            is_failed c1 = is_failed c \<and>
            bus_addresses c1 =
              bus_addresses c @ replicate 3 (i2c_address (address_m c) 0 0) @
                concat (map (setup_channel_addresses verbose (address_m c)) children)) \<and>
         (error (respond (bus c) (length (journal (bus c)))) = ERROR_OK \<longrightarrow>
            (\<exists>c0. journal (bus c0) = journal (bus c) @
                 [READ_REGISTER (i2c_address (address_m c) 0 0) REG_WK2132_GENA 1] \<and>
               wk2132_component_setup c children = wk2132_setup_children c0 children) \<and>
            (\<exists>c1. wk2132_component_setup c children =
                    Some (c1, map wk2132_channel_after_setup children) \<and>
               is_failed c1 = is_failed c \<and>
               bus_addresses c1 =
                 bus_addresses c @ [i2c_address (address_m c) 0 0] @
                   concat (map (wk2132_setup_channel_addresses (address_m c)) children)))"
  using component_setup_prologue [where c = c and children = children and verbose = verbose]
    component_setup_result [OF assms, where c = c and verbose = verbose]
    wk2132_component_setup_prologue [of c children] wk2132_component_setup_result [OF assms, of c]
  by (intro conjI impI)

lemma example_divisors:
  "baud_divisor (baud_rate_m channel_0) \<noteq> 0" "baud_divisor (baud_rate_m channel_1) \<noteq> 0"
  by (simp_all add: baud_divisor_def channel_0_def channel_1_def example_channel_def)

theorem C4_witness:
  "baud_divisor (baud_rate_m channel_0) \<noteq> 0 \<and> baud_divisor (baud_rate_m channel_1) \<noteq> 0 \<and>
   error (respond (bus healthy_component) (length (journal (bus healthy_component)))) = ERROR_OK \<and>
   (\<exists>c1. component_setup True healthy_component [channel_0, channel_1] =
           Some (c1, map channel_after_setup [channel_0, channel_1]) \<and>
      is_failed c1 = is_failed healthy_component \<and>
      bus_addresses c1 =
        bus_addresses healthy_component @
          replicate 3 (i2c_address (address_m healthy_component) 0 0) @
          concat (map (setup_channel_addresses True (address_m healthy_component))
                    [channel_0, channel_1])) \<and>
   (\<exists>c1. wk2132_component_setup healthy_component [channel_0, channel_1] =
           Some (c1, map wk2132_channel_after_setup [channel_0, channel_1]) \<and>
      is_failed c1 = is_failed healthy_component \<and>
      bus_addresses c1 =
        bus_addresses healthy_component @ [i2c_address (address_m healthy_component) 0 0] @
          concat (map (wk2132_setup_channel_addresses (address_m healthy_component))
                    [channel_0, channel_1]))"
proof -
  have h: "\<forall>ch \<in> set [channel_0, channel_1]. baud_divisor (baud_rate_m ch) \<noteq> 0"
    by (simp add: example_divisors)
  have ok: "error (respond (bus healthy_component) (length (journal (bus healthy_component)))) = ERROR_OK"
    by (simp add: healthy_component_def example_component_def answers_all_ok_def reply_ok_def)
  note run = C4_setup_sets_up_every_channel_in_order
    [OF h, where c = healthy_component and verbose = True]
  show ?thesis
    using example_divisors ok run [THEN conjunct2, THEN conjunct1]
      run [THEN conjunct2, THEN conjunct2, THEN mp, OF ok, THEN conjunct2]
    by (intro conjI)
qed

text \<open>
  The claim as stated fails. On a bus where every transaction fails, the probe of
  namespace \<^verbatim>\<open>wk2132\<close> fails; the component is not marked failed, and its channel is set up
  all the same: ten transactions at the address of the channel's registers follow, and
  \<^verbatim>\<open>data_bits_\<close> of the channel has been assigned. The same holds in namespace
  \<^verbatim>\<open>wk2132_i2c\<close>, whose first transaction is a write. And on a healthy bus, with channel 1
  registered before channel 0, both setups configure channel 1 (address \<open>0x12\<close>) before
  channel 0 (address \<open>0x10\<close>): the order is that of \<^verbatim>\<open>children_\<close>, not that of the channel
  numbers.
\<close>

theorem C4_counterexample:
  "error (respond (bus dead_component) (length (journal (bus dead_component)))) \<noteq> ERROR_OK \<and>
   data_bits_m channel_1 = 0 \<and> bus_addresses dead_component = [] \<and>
   wk2132_component_setup dead_component [channel_1] \<noteq> None \<and>
   is_failed (fst (the (wk2132_component_setup dead_component [channel_1]))) = False \<and>
   map data_bits_m (snd (the (wk2132_component_setup dead_component [channel_1]))) = [8] \<and>
   bus_addresses (fst (the (wk2132_component_setup dead_component [channel_1]))) =
     0x10 # replicate 4 0x10 @ replicate 10 0x12 \<and>
   component_setup False dead_component [channel_1] \<noteq> None \<and>
   is_failed (fst (the (component_setup False dead_component [channel_1]))) = False \<and>
   map data_bits_m (snd (the (component_setup False dead_component [channel_1]))) = [8] \<and>
   bus_addresses (fst (the (component_setup False dead_component [channel_1]))) =
     replicate 3 0x10 @ replicate 9 0x12 \<and>
   error (respond (bus healthy_component) (length (journal (bus healthy_component)))) = ERROR_OK \<and>
   map channel_m [channel_1, channel_0] = [1, 0] \<and>
   bus_addresses (fst (the (wk2132_component_setup healthy_component [channel_1, channel_0]))) =
     0x10 # (replicate 4 0x10 @ replicate 10 0x12) @ (replicate 4 0x10 @ replicate 10 0x10) \<and>
   bus_addresses (fst (the (component_setup False healthy_component [channel_1, channel_0]))) =
     replicate 3 0x10 @ replicate 9 0x12 @ replicate 9 0x10"
proof -
  have h: "\<forall>ch \<in> set [channel_1]. baud_divisor (baud_rate_m ch) \<noteq> 0"
    and h2: "\<forall>ch \<in> set [channel_1, channel_0]. baud_divisor (baud_rate_m ch) \<noteq> 0"
    by (simp_all add: example_divisors)
  have e: "error (respond (bus dead_component) (length (journal (bus dead_component)))) \<noteq> ERROR_OK"
    by (simp add: dead_component_def example_component_def answers_all_fail_def reply_failed_def)
  have ok: "error (respond (bus healthy_component) (length (journal (bus healthy_component)))) = ERROR_OK"
    by (simp add: healthy_component_def example_component_def answers_all_ok_def reply_ok_def)
  have d: "data_bits_m channel_1 = 0" and n: "map channel_m [channel_1, channel_0] = [1, 0]"
    by (simp_all add: channel_1_def channel_0_def example_channel_def)
  have f: "is_failed dead_component = False" and b: "bus_addresses dead_component = []"
    and g: "i2c_address (address_m dead_component) 0 0 = 0x10"
    by (simp_all add: dead_component_def example_component_def bus_addresses_def i2c_address_def)
  have bh: "bus_addresses healthy_component = []"
    and gh: "i2c_address (address_m healthy_component) 0 0 = 0x10"
    by (simp_all add: healthy_component_def example_component_def bus_addresses_def i2c_address_def)
  have w: "wk2132_setup_channel_addresses (address_m dead_component) channel_1 =
      replicate 4 0x10 @ replicate 10 0x12"
    by (simp add: wk2132_setup_channel_addresses_def dead_component_def example_component_def
        channel_1_def example_channel_def i2c_address_def)
  have s: "setup_channel_addresses False (address_m dead_component) channel_1 = replicate 9 0x12"
    by (simp add: setup_channel_addresses_def setup_channel_transactions_def dead_component_def
        example_component_def channel_1_def example_channel_def i2c_address_def)
  have wh: "wk2132_setup_channel_addresses (address_m healthy_component) channel_1 =
      replicate 4 0x10 @ replicate 10 0x12"
    "wk2132_setup_channel_addresses (address_m healthy_component) channel_0 =
      replicate 4 0x10 @ replicate 10 0x10"
    by (simp_all add: wk2132_setup_channel_addresses_def healthy_component_def example_component_def
        channel_1_def channel_0_def example_channel_def i2c_address_def)
  have sh: "setup_channel_addresses False (address_m healthy_component) channel_1 = replicate 9 0x12"
    "setup_channel_addresses False (address_m healthy_component) channel_0 = replicate 9 0x10"
    by (simp_all add: setup_channel_addresses_def setup_channel_transactions_def
        healthy_component_def example_component_def channel_1_def channel_0_def example_channel_def
        i2c_address_def)
  from wk2132_component_setup_result [OF h, of dead_component] obtain c1 where
    r1: "wk2132_component_setup dead_component [channel_1] =
           Some (c1, map wk2132_channel_after_setup [channel_1])" and
    f1: "is_failed c1 = is_failed dead_component" and
    a1: "bus_addresses c1 =
           bus_addresses dead_component @ [i2c_address (address_m dead_component) 0 0] @
             concat (map (wk2132_setup_channel_addresses (address_m dead_component)) [channel_1])"
    by blast
  from component_setup_result [OF h, where c = dead_component and verbose = False] obtain c2 where
    r2: "component_setup False dead_component [channel_1] =
           Some (c2, map channel_after_setup [channel_1])" and
    f2: "is_failed c2 = is_failed dead_component" and
    a2: "bus_addresses c2 =
           bus_addresses dead_component @ replicate 3 (i2c_address (address_m dead_component) 0 0) @
             concat (map (setup_channel_addresses False (address_m dead_component)) [channel_1])"
    by blast
  from wk2132_component_setup_result [OF h2, of healthy_component] obtain c3 where
    r3: "wk2132_component_setup healthy_component [channel_1, channel_0] =
           Some (c3, map wk2132_channel_after_setup [channel_1, channel_0])" and
    a3: "bus_addresses c3 =
           bus_addresses healthy_component @ [i2c_address (address_m healthy_component) 0 0] @
             concat (map (wk2132_setup_channel_addresses (address_m healthy_component))
                       [channel_1, channel_0])"
    by blast
  from component_setup_result [OF h2, where c = healthy_component and verbose = False]
  obtain c4 where
    r4: "component_setup False healthy_component [channel_1, channel_0] =
           Some (c4, map channel_after_setup [channel_1, channel_0])" and
    a4: "bus_addresses c4 =
           bus_addresses healthy_component @
             replicate 3 (i2c_address (address_m healthy_component) 0 0) @
             concat (map (setup_channel_addresses False (address_m healthy_component))
                       [channel_1, channel_0])"
    by blast
  have p1: "bus_addresses c1 = 0x10 # replicate 4 0x10 @ replicate 10 0x12"
    unfolding a1 b g by (simp add: w)
  have p2: "bus_addresses c2 = replicate 3 0x10 @ replicate 9 0x12"
    unfolding a2 b g by (simp add: s)
  have p3: "bus_addresses c3 =
      0x10 # (replicate 4 0x10 @ replicate 10 0x12) @ (replicate 4 0x10 @ replicate 10 0x10)"
    unfolding a3 bh gh by (simp add: wh)
  have p4: "bus_addresses c4 = replicate 3 0x10 @ replicate 9 0x12 @ replicate 9 0x10"
    unfolding a4 bh gh by (simp add: sh)
  have dead: "wk2132_component_setup dead_component [channel_1] \<noteq> None \<and>
      is_failed (fst (the (wk2132_component_setup dead_component [channel_1]))) = False \<and>
      map data_bits_m (snd (the (wk2132_component_setup dead_component [channel_1]))) = [8] \<and>
      bus_addresses (fst (the (wk2132_component_setup dead_component [channel_1]))) =
        0x10 # replicate 4 0x10 @ replicate 10 0x12 \<and>
      component_setup False dead_component [channel_1] \<noteq> None \<and>
      is_failed (fst (the (component_setup False dead_component [channel_1]))) = False \<and>
      map data_bits_m (snd (the (component_setup False dead_component [channel_1]))) = [8] \<and>
      bus_addresses (fst (the (component_setup False dead_component [channel_1]))) =
        replicate 3 0x10 @ replicate 9 0x12"
    using f f1 f2 p1 p2
    by (simp add: r1 r2 wk2132_channel_after_setup_def channel_after_setup_def)
  have order: "bus_addresses (fst (the (wk2132_component_setup healthy_component [channel_1, channel_0]))) =
        0x10 # (replicate 4 0x10 @ replicate 10 0x12) @ (replicate 4 0x10 @ replicate 10 0x10) \<and>
      bus_addresses (fst (the (component_setup False healthy_component [channel_1, channel_0]))) =
        replicate 3 0x10 @ replicate 9 0x12 @ replicate 9 0x10"
    using p3 p4 by (simp add: r3 r4)
  show ?thesis
    using e d b dead ok n order by (intro conjI) (elim conjE, assumption)+
qed

section \<open>Page selection\<close>

lemma page_write_constants:
  "REG_WK2132_BRH \<noteq> REG_WK2132_SPAGE" "REG_WK2132_BRL \<noteq> REG_WK2132_SPAGE"
  "REG_WK2132_BRD \<noteq> REG_WK2132_SPAGE"
  by (simp_all add: REG_WK2132_BRH_def REG_WK2132_BRL_def REG_WK2132_BRD_def REG_WK2132_SPAGE_def)

lemma set_baudrate_page1:
  "baud_divisor (baud_rate_m ch) \<noteq> 0 \<Longrightarrow> page1_m (the (set_baudrate_m c ch)) = False"
  by (simp add: set_baudrate_m_def Let_def switch_page_kept)

text \<open>
  Claim C2, as the code has it. The driver has no guarded page selection: a page switch
  assigns \<^verbatim>\<open>page1_\<close> and writes the page-select register whatever \<^verbatim>\<open>page1_\<close> was. One
  switch appends exactly one write to the bus journal, two switches to the same page in a
  row append two, and \<^verbatim>\<open>page1_\<close> is the requested page after each. \<^verbatim>\<open>set_baudrate_\<close>
  issues its two page writes, to page 1 and back to page 0, from any state, and \<^verbatim>\<open>setup\<close>
  writes page 0 to the register from any state before it runs the loop over the children.
\<close>

theorem C2_page_switch_always_writes:
  "let a = i2c_address (base_address_m c) (channel_m ch) 0;
       w = WRITE_REGISTER a REG_WK2132_SPAGE [if p then 1 else 0];
       c1 = switch_page p ch c;
       c2 = switch_page p ch c1
   in journal (bus c1) = journal (bus c) @ [w] \<and> page1_m c1 = p \<and>
      journal (bus c2) = journal (bus c) @ [w, w] \<and> page1_m c2 = p \<and>
      length (filter is_page_write (journal (bus c2))) =
        length (filter is_page_write (journal (bus c))) + 2 \<and>
      (baud_divisor (baud_rate_m ch) \<noteq> 0 \<longrightarrow>
         (\<exists>c3. set_baudrate_m c ch = Some c3 \<and> page1_m c3 = False \<and>
            filter is_page_write (drop (length (journal (bus c))) (journal (bus c3))) =
              [WRITE_REGISTER a REG_WK2132_SPAGE [1], WRITE_REGISTER a REG_WK2132_SPAGE [0]])) \<and>
      (\<exists>c0. journal (bus c0) = journal (bus c) @
           [WRITE_REGISTER (i2c_address (address_m c) 0 0) REG_WK2132_GENA [GENA_C1EN OR GENA_C2EN],
            WRITE_REGISTER (i2c_address (address_m c) 0 0) REG_WK2132_GRST [GRST_C1RST OR GRST_C2RST],
            WRITE_REGISTER (i2c_address (address_m c) 0 0) REG_WK2132_SPAGE [0]] \<and>
         component_setup verbose c children = setup_children verbose c0 children)"
proof -
  have sb: "baud_divisor (baud_rate_m ch) \<noteq> 0 \<Longrightarrow>
      (\<exists>c3. set_baudrate_m c ch = Some c3 \<and> page1_m c3 = False \<and>
         filter is_page_write (drop (length (journal (bus c))) (journal (bus c3))) =
           [WRITE_REGISTER (i2c_address (base_address_m c) (channel_m ch) 0) REG_WK2132_SPAGE [1],
            WRITE_REGISTER (i2c_address (base_address_m c) (channel_m ch) 0) REG_WK2132_SPAGE [0]])"
  proof -
    assume nz: "baud_divisor (baud_rate_m ch) \<noteq> 0"
    from set_baudrate_journal [OF nz, of c] obtain c3 where
      c3: "set_baudrate_m c ch = Some c3" and
      j: "journal (bus c3) = journal (bus c) @
       (let a = i2c_address (base_address_m c) (channel_m ch) 0;
            vi = val_int (crystal_m c) (baud_rate_m ch);
            vd = val_dec (crystal_m c) (baud_rate_m ch)
        in [WRITE_REGISTER a REG_WK2132_SPAGE [1],
            WRITE_REGISTER a REG_WK2132_BRH [baud_high vi],
            WRITE_REGISTER a REG_WK2132_BRL [baud_low vi],
            WRITE_REGISTER a REG_WK2132_BRD [baud_dec vd],
            WRITE_REGISTER a REG_WK2132_SPAGE [0]])"
      by blast
    have p: "page1_m c3 = False"
      using set_baudrate_page1 [OF nz, of c] c3 by simp
    show ?thesis
      using c3 p by (simp add: j Let_def page_write_constants)
  qed
  show ?thesis
    unfolding Let_def
    using sb component_setup_prologue [where c = c and children = children and verbose = verbose]
    by (simp add: switch_page_journal switch_page_kept)
qed

theorem C2_witness:
  "baud_divisor (baud_rate_m channel_1) \<noteq> 0 \<and>
   page1_m (switch_page True channel_1 (switch_page True channel_1 healthy_component)) = True \<and>
   length (filter is_page_write
       (journal (bus (switch_page True channel_1 (switch_page True channel_1 healthy_component))))) =
     length (filter is_page_write (journal (bus healthy_component))) + 2 \<and>
   (\<exists>c3. set_baudrate_m healthy_component channel_1 = Some c3 \<and> page1_m c3 = False)"
proof -
  have h: "baud_divisor (baud_rate_m channel_1) \<noteq> 0"
    by (simp add: baud_divisor_def channel_1_def example_channel_def)
  note run = C2_page_switch_always_writes
    [where c = healthy_component and ch = channel_1 and p = True, unfolded Let_def]
  have "\<exists>c3. set_baudrate_m healthy_component channel_1 = Some c3 \<and> page1_m c3 = False"
    using run [THEN conjunct2, THEN conjunct2, THEN conjunct2, THEN conjunct2, THEN conjunct2,
        THEN conjunct1] h
    by blast
  then show ?thesis
    using h run [THEN conjunct2, THEN conjunct2, THEN conjunct2, THEN conjunct1]
      run [THEN conjunct2, THEN conjunct2, THEN conjunct2, THEN conjunct2, THEN conjunct1]
    by (intro conjI)
qed

text \<open>
  The claim as stated fails: with page 0 current, selecting page 0 writes the register,
  and selecting it again writes it again; the second call changes the state. \<^verbatim>\<open>setup\<close>
  of a component already in page 0 writes page 0 to the register, too.
\<close>

theorem C2_counterexample:
  "page1_m healthy_component = False \<and>
   journal (bus healthy_component) = [] \<and>
   page1_m (switch_page False channel_1 healthy_component) = False \<and>
   journal (bus (switch_page False channel_1 (switch_page False channel_1 healthy_component))) =
     [WRITE_REGISTER 0x12 0x03 [0], WRITE_REGISTER 0x12 0x03 [0]] \<and>
   switch_page False channel_1 (switch_page False channel_1 healthy_component) \<noteq>
     switch_page False channel_1 healthy_component \<and>
   journal (bus (fst (the (component_setup False healthy_component [])))) =
     [WRITE_REGISTER 0x10 0x00 [3], WRITE_REGISTER 0x10 0x01 [3], WRITE_REGISTER 0x10 0x03 [0]]"
proof -
  have a: "i2c_address (base_address_m healthy_component) (channel_m channel_1) 0 = 0x12"
    by (simp add: i2c_address_def healthy_component_def example_component_def channel_1_def
        example_channel_def)
  have j0: "journal (bus healthy_component) = []" and p0: "page1_m healthy_component = False"
    by (simp_all add: healthy_component_def example_component_def)
  have j1: "journal (bus (switch_page False channel_1 healthy_component)) =
      [WRITE_REGISTER 0x12 0x03 [0]]"
    by (simp add: switch_page_journal a j0 REG_WK2132_SPAGE_def)
  have j2: "journal (bus (switch_page False channel_1 (switch_page False channel_1 healthy_component))) =
      [WRITE_REGISTER 0x12 0x03 [0], WRITE_REGISTER 0x12 0x03 [0]]"
    by (simp add: switch_page_journal switch_page_kept a j0 REG_WK2132_SPAGE_def)
  have "switch_page False channel_1 (switch_page False channel_1 healthy_component) \<noteq>
     switch_page False channel_1 healthy_component"
  proof
    assume "switch_page False channel_1 (switch_page False channel_1 healthy_component) =
     switch_page False channel_1 healthy_component"
    then have "journal (bus (switch_page False channel_1 (switch_page False channel_1 healthy_component))) =
      journal (bus (switch_page False channel_1 healthy_component))"
      by simp
    then show False
      unfolding j1 j2 by simp
  qed
  moreover have "journal (bus (fst (the (component_setup False healthy_component [])))) =
     [WRITE_REGISTER 0x10 0x00 [3], WRITE_REGISTER 0x10 0x01 [3], WRITE_REGISTER 0x10 0x03 [0]]"
  proof -
    from component_setup_prologue
      [where c = healthy_component and children = "[]" and verbose = False] obtain c0 where
      j: "journal (bus c0) = journal (bus healthy_component) @
           [WRITE_REGISTER (i2c_address (address_m healthy_component) 0 0) REG_WK2132_GENA
              [GENA_C1EN OR GENA_C2EN],
            WRITE_REGISTER (i2c_address (address_m healthy_component) 0 0) REG_WK2132_GRST
              [GRST_C1RST OR GRST_C2RST],
            WRITE_REGISTER (i2c_address (address_m healthy_component) 0 0) REG_WK2132_SPAGE [0]]" and
      r: "component_setup False healthy_component [] = setup_children False c0 []"
      by blast
    have g: "i2c_address (address_m healthy_component) 0 0 = 0x10"
      by (simp add: i2c_address_def healthy_component_def example_component_def)
    show ?thesis
      unfolding r by (simp add: j j0 g REG_WK2132_GENA_def GENA_C1EN_def GENA_C2EN_def
          REG_WK2132_GRST_def GRST_C1RST_def GRST_C2RST_def REG_WK2132_SPAGE_def)
  qed
  ultimately show ?thesis
    using p0 j0 j2 by (simp add: switch_page_kept)
qed

end
